theory Spec2Isabelle
  imports Complex_Main "HOL-Library.Word"
begin

section \<open>JavaScript values\<close>

text \<open>
  The handlers of \<^verbatim>\<open>server.js\<close> rely on three pieces of JavaScript semantics:
  truthiness (\<^verbatim>\<open>id && ...\<close>, \<^verbatim>\<open>title || post.title\<close>), the numeric coercion behind the
  global \<^verbatim>\<open>isNaN\<close>, and strict equality of strings. A JavaScript string is a sequence
  of code units; a \<^typ>\<open>char\<close> stands for the code unit with the same number, so the
  strings of this development are those whose code units are below 256.
\<close>

datatype js_number = JNaN | JFinite rat | JPosInfinity | JNegInfinity

datatype js_value =
    JUndefined
  | JNull
  | JBool bool
  | JNum js_number
  | JStr string
  | JArr "js_value list"
  | JObj "(string \<times> js_value) list"

text \<open>ToBoolean: \<^verbatim>\<open>undefined\<close>, \<^verbatim>\<open>null\<close>, \<^verbatim>\<open>false\<close>, zero, NaN and the empty string are falsy.\<close>

fun truthy :: "js_value \<Rightarrow> bool" where
  "truthy JUndefined = False"
| "truthy JNull = False"
| "truthy (JBool b) = b"
| "truthy (JNum JNaN) = False"
| "truthy (JNum (JFinite q)) = (q \<noteq> 0)"
| "truthy (JNum JPosInfinity) = True"
| "truthy (JNum JNegInfinity) = True"
| "truthy (JStr s) = (s \<noteq> [])"
| "truthy (JArr xs) = True"
| "truthy (JObj kvs) = True"

text \<open>The operator \<^verbatim>\<open>a || b\<close>: the left operand when it is truthy, the right one otherwise.\<close>

definition js_or :: "js_value \<Rightarrow> js_value \<Rightarrow> js_value" where
  "js_or a b = (if truthy a then a else b)"

subsection \<open>Numeric coercion of strings\<close>

text \<open>
  \<^verbatim>\<open>isNaN(s)\<close> on a string converts it with ToNumber, which yields NaN exactly when
  the string is not a StringNumericLiteral: optional white space, then nothing, or a
  signed decimal literal (digits, a fraction, an exponent, or \<^verbatim>\<open>Infinity\<close>), or an
  unsigned binary, octal or hexadecimal integer, then optional white space.
\<close>

definition is_StrWhiteSpaceChar :: "char \<Rightarrow> bool" where
  "is_StrWhiteSpaceChar c = (of_char c \<in> {9, 10, 11, 12, 13, 32, 160 :: nat})"

definition is_DecimalDigit :: "char \<Rightarrow> bool" where
  "is_DecimalDigit c = (c \<in> set ''0123456789'')"

definition is_BinaryDigit :: "char \<Rightarrow> bool" where
  "is_BinaryDigit c = (c \<in> set ''01'')"

definition is_OctalDigit :: "char \<Rightarrow> bool" where
  "is_OctalDigit c = (c \<in> set ''01234567'')"

definition is_HexDigit :: "char \<Rightarrow> bool" where
  "is_HexDigit c = (c \<in> set ''0123456789abcdefABCDEF'')"

definition is_DecimalDigits :: "string \<Rightarrow> bool" where
  "is_DecimalDigits s = (s \<noteq> [] \<and> list_all is_DecimalDigit s)"

text \<open>What may follow the mantissa: nothing, or \<^verbatim>\<open>e\<close>/\<^verbatim>\<open>E\<close> and a signed integer.\<close>

fun is_ExponentPart_opt :: "string \<Rightarrow> bool" where
  "is_ExponentPart_opt [] = True"
| "is_ExponentPart_opt (c # r) =
     ((c = CHR ''e'' \<or> c = CHR ''E'') \<and>
      (case r of
         [] \<Rightarrow> False
       | d # r' \<Rightarrow> if d = CHR ''+'' \<or> d = CHR ''-'' then is_DecimalDigits r'
                   else is_DecimalDigits r))"

definition is_StrUnsignedDecimalLiteral :: "string \<Rightarrow> bool" where
  "is_StrUnsignedDecimalLiteral s =
     (s = ''Infinity'' \<or>
      (let ds1 = takeWhile is_DecimalDigit s; r = dropWhile is_DecimalDigit s
       in case r of
            [] \<Rightarrow> ds1 \<noteq> []
          | c # r2 \<Rightarrow>
              if c = CHR ''.''
              then (ds1 \<noteq> [] \<or> takeWhile is_DecimalDigit r2 \<noteq> []) \<and>
                   is_ExponentPart_opt (dropWhile is_DecimalDigit r2)
              else ds1 \<noteq> [] \<and> is_ExponentPart_opt r))"

definition is_StrDecimalLiteral :: "string \<Rightarrow> bool" where
  "is_StrDecimalLiteral s =
     (case s of
        [] \<Rightarrow> False
      | c # r \<Rightarrow> if c = CHR ''+'' \<or> c = CHR ''-'' then is_StrUnsignedDecimalLiteral r
                  else is_StrUnsignedDecimalLiteral s)"

definition is_NonDecimalIntegerLiteral :: "string \<Rightarrow> bool" where
  "is_NonDecimalIntegerLiteral s =
     (case s of
        z # k # ds \<Rightarrow>
          z = CHR ''0'' \<and> ds \<noteq> [] \<and>
          (if k = CHR ''b'' \<or> k = CHR ''B'' then list_all is_BinaryDigit ds
           else if k = CHR ''o'' \<or> k = CHR ''O'' then list_all is_OctalDigit ds
           else if k = CHR ''x'' \<or> k = CHR ''X'' then list_all is_HexDigit ds
           else False)
      | _ \<Rightarrow> False)"

definition trim_StrWhiteSpace :: "string \<Rightarrow> string" where
  "trim_StrWhiteSpace s =
     rev (dropWhile is_StrWhiteSpaceChar (rev (dropWhile is_StrWhiteSpaceChar s)))"

definition is_StringNumericLiteral :: "string \<Rightarrow> bool" where
  "is_StringNumericLiteral s =
     (let t = trim_StrWhiteSpace s
      in t = [] \<or> is_StrDecimalLiteral t \<or> is_NonDecimalIntegerLiteral t)"

definition isNaN :: "string \<Rightarrow> bool" where
  "isNaN s = (\<not> is_StringNumericLiteral s)"

text \<open>\<^verbatim>\<open>String.prototype.startsWith\<close>.\<close>

definition startsWith :: "string \<Rightarrow> string \<Rightarrow> bool" where
  "startsWith s p = (take (length p) s = p)"

text \<open>A non-negative integer in a template literal: its decimal digits.\<close>

fun decimal :: "nat \<Rightarrow> string" where
  "decimal n =
     (if n < 10 then [''0123456789'' ! n]
      else decimal (n div 10) @ [''0123456789'' ! (n mod 10)])"

declare decimal.simps [simp del]

section \<open>Data model\<close>

text \<open>
  A post as the creation handler assembles it. The \<^verbatim>\<open>id\<close> is a string: a text field
  of the multipart form or a generated token. \<^verbatim>\<open>title\<close>, \<^verbatim>\<open>description\<close> and
  \<^verbatim>\<open>actress\<close> hold whatever the request supplied (\<^verbatim>\<open>undefined\<close> when it supplied
  nothing). \<^verbatim>\<open>image\<close> and \<^verbatim>\<open>video\<close> are a path or \<^verbatim>\<open>null\<close>, here \<^const>\<open>None\<close>.
\<close>

record post =
  post_id :: string
  title :: js_value
  description :: js_value
  post_image :: "string option"
  post_video :: "string option"
  actress :: js_value

type_synonym bytes = "8 word list"

text \<open>
  A file part of the multipart request: its declared content type, the extension
  \<^verbatim>\<open>path.extname(file.originalname)\<close> of its original name as Node's \<^verbatim>\<open>path\<close>
  module computes it, and its bytes.
\<close>

record file_part =
  mimetype :: string
  extname :: string
  buffer :: bytes

text \<open>
  The process state: the \<^verbatim>\<open>posts\<close> array and the files that the disk storage
  engine has written, by path.
\<close>

record state =
  posts :: "post list"
  disk :: "string \<rightharpoonup> bytes"

definition initial :: state where
  "initial = \<lparr>posts = [], disk = Map.empty\<rparr>"

text \<open>
  What \<^verbatim>\<open>uuidv4()\<close> and \<^verbatim>\<open>Date.now()\<close> return during one creation request: for the
  file name of the image part, for the file name of the video part, and for the
  fallback id.
\<close>

record entropy =
  image_uuid :: string
  image_now :: nat
  video_uuid :: string
  video_now :: nat
  id_uuid :: string

text \<open>
  A creation request: the text fields of the multipart form (each a string when the
  form has it) and at most one file under each of the names \<^verbatim>\<open>image\<close> and \<^verbatim>\<open>video\<close>,
  which is what \<^verbatim>\<open>upload.fields\<close> with \<^verbatim>\<open>maxCount: 1\<close> lets through to the handler.
\<close>

record create_request =
  body_id :: "string option"
  body_title :: "string option"
  body_description :: "string option"
  body_actress :: "string option"
  files_image :: "file_part option"
  files_video :: "file_part option"

text \<open>
  The JSON body of an update request. The handler reads \<^verbatim>\<open>title\<close>, \<^verbatim>\<open>description\<close>
  and \<^verbatim>\<open>actress\<close> only; the other three fields are what a caller may send besides.
\<close>

record update_body =
  upd_id :: js_value
  upd_title :: js_value
  upd_description :: js_value
  upd_image :: js_value
  upd_video :: js_value
  upd_actress :: js_value

datatype body =
    Message string
  | MessagePost string post
  | PostBody post
  | PostList "post list"

datatype response = Response (status: nat) (body: body)

section \<open>Upload storage\<close>

definition destination :: "file_part \<Rightarrow> string" where
  "destination file =
     (let fileType = (if startsWith (mimetype file) ''video'' then ''videos'' else ''images'')
      in ''uploads/'' @ fileType)"

definition filename :: "string \<Rightarrow> nat \<Rightarrow> file_part \<Rightarrow> string" where
  "filename uuid now file = uuid @ ''-'' @ decimal now @ extname file"

text \<open>
  The disk storage engine writes the part to \<^verbatim>\<open>path.join(destination, filename)\<close>
  and hands the generated file name on to the handler.
\<close>

definition store_file :: "string \<Rightarrow> nat \<Rightarrow> file_part \<Rightarrow> (string \<rightharpoonup> bytes) \<Rightarrow> string \<times> (string \<rightharpoonup> bytes)" where
  "store_file uuid now file d =
     (let name = filename uuid now file
      in (name, d(destination file @ ''/'' @ name \<mapsto> buffer file)))"

definition store_opt :: "string \<Rightarrow> nat \<Rightarrow> file_part option \<Rightarrow> (string \<rightharpoonup> bytes) \<Rightarrow> string option \<times> (string \<rightharpoonup> bytes)" where
  "store_opt uuid now part d =
     (case part of
        None \<Rightarrow> (None, d)
      | Some file \<Rightarrow> (let (name, d') = store_file uuid now file d in (Some name, d')))"

section \<open>Handlers\<close>

definition field :: "string option \<Rightarrow> js_value" where
  "field v = (case v of None \<Rightarrow> JUndefined | Some s \<Rightarrow> JStr s)"

text \<open>The guard \<^verbatim>\<open>id && isNaN(id)\<close> of the creation handler.\<close>

definition id_rejected :: "string option \<Rightarrow> bool" where
  "id_rejected i = (case i of None \<Rightarrow> False | Some s \<Rightarrow> s \<noteq> [] \<and> isNaN s)"

text \<open>\<^verbatim>\<open>id || uuidv4()\<close>.\<close>

definition postId :: "string option \<Rightarrow> string \<Rightarrow> string" where
  "postId i uuid = (case i of None \<Rightarrow> uuid | Some s \<Rightarrow> if s \<noteq> [] then s else uuid)"

definition newPost :: "entropy \<Rightarrow> create_request \<Rightarrow> string option \<Rightarrow> string option \<Rightarrow> post" where
  "newPost e req img vid =
     \<lparr>post_id = postId (body_id req) (id_uuid e),
      title = field (body_title req),
      description = field (body_description req),
      post_image = map_option (\<lambda>name. ''/uploads/images/'' @ name) img,
      post_video = map_option (\<lambda>name. ''/uploads/videos/'' @ name) vid,
      actress = field (body_actress req)\<rparr>"

text \<open>
  \<^verbatim>\<open>POST /posts\<close>. The upload middleware runs before the handler, so the files are on
  disk whatever the handler answers. The image part is stored before the video part
  here; the order matters only if both get the same path.
\<close>

definition create_post :: "entropy \<Rightarrow> create_request \<Rightarrow> state \<Rightarrow> response \<times> state" where
  "create_post e req st =
     (let (img, d1) = store_opt (image_uuid e) (image_now e) (files_image req) (disk st);
          (vid, d2) = store_opt (video_uuid e) (video_now e) (files_video req) d1;
          st' = st\<lparr>disk := d2\<rparr>
      in if id_rejected (body_id req)
         then (Response 400 (Message ''ID must be a valid number''), st')
         else (let p = newPost e req img vid
               in (Response 201 (MessagePost ''Post created successfully'' p),
                   st'\<lparr>posts := posts st' @ [p]\<rparr>)))"

text \<open>\<^verbatim>\<open>GET /posts\<close>.\<close>

definition list_posts :: "state \<Rightarrow> response \<times> state" where
  "list_posts st = (Response 200 (PostList (posts st)), st)"

text \<open>\<^verbatim>\<open>Array.prototype.findIndex\<close>, with \<^const>\<open>None\<close> for \<^verbatim>\<open>-1\<close>.\<close>

fun findIndex :: "('a \<Rightarrow> bool) \<Rightarrow> 'a list \<Rightarrow> nat option" where
  "findIndex P [] = None"
| "findIndex P (x # xs) = (if P x then Some 0 else map_option Suc (findIndex P xs))"

text \<open>\<^verbatim>\<open>GET /posts/:id\<close>.\<close>

definition get_post :: "string \<Rightarrow> state \<Rightarrow> response \<times> state" where
  "get_post i st =
     (case find (\<lambda>p. post_id p = i) (posts st) of
        Some p \<Rightarrow> (Response 200 (PostBody p), st)
      | None \<Rightarrow> (Response 404 (Message ''Post not found''), st))"

text \<open>
  \<^verbatim>\<open>PUT /posts/:id\<close>. \<^verbatim>\<open>posts.find\<close> returns the first matching element of the array
  itself, so the three assignments change the array at that element's index.
\<close>

definition update_post :: "string \<Rightarrow> update_body \<Rightarrow> state \<Rightarrow> response \<times> state" where
  "update_post i b st =
     (case findIndex (\<lambda>p. post_id p = i) (posts st) of
        Some k \<Rightarrow>
          (let p = posts st ! k;
               p' = p\<lparr>title := js_or (upd_title b) (title p),
                      description := js_or (upd_description b) (description p),
                      actress := js_or (upd_actress b) (actress p)\<rparr>
           in (Response 200 (MessagePost ''Post updated successfully'' p'),
               st\<lparr>posts := (posts st)[k := p']\<rparr>))
      | None \<Rightarrow> (Response 404 (Message ''Post not found''), st))"

text \<open>\<^verbatim>\<open>DELETE /posts/:id\<close>, with \<^verbatim>\<open>posts.splice(postIndex, 1)\<close>.\<close>

definition delete_post :: "string \<Rightarrow> state \<Rightarrow> response \<times> state" where
  "delete_post i st =
     (case findIndex (\<lambda>p. post_id p = i) (posts st) of
        Some k \<Rightarrow>
          (Response 200 (Message ''Post deleted successfully''),
           st\<lparr>posts := take k (posts st) @ drop (Suc k) (posts st)\<rparr>)
      | None \<Rightarrow> (Response 404 (Message ''Post not found''), st))"

text \<open>
  \<^verbatim>\<open>res.json\<close> writes its argument with \<^verbatim>\<open>JSON.stringify\<close>. What a value is written
  as, read back as a value: a number that is not finite is written \<^verbatim>\<open>null\<close>, and so
  is \<^verbatim>\<open>undefined\<close> as an element of an array; a key of an object whose value is
  \<^verbatim>\<open>undefined\<close> is left out.
\<close>

fun json_value :: "js_value \<Rightarrow> js_value" where
  "json_value JUndefined = JNull"
| "json_value JNull = JNull"
| "json_value (JBool b) = JBool b"
| "json_value (JNum (JFinite q)) = JNum (JFinite q)"
| "json_value (JNum JNaN) = JNull"
| "json_value (JNum JPosInfinity) = JNull"
| "json_value (JNum JNegInfinity) = JNull"
| "json_value (JStr s) = JStr s"
| "json_value (JArr xs) = JArr (map json_value xs)"
| "json_value (JObj kvs) =
     JObj (map (\<lambda>kv. (fst kv, json_value (snd kv))) (filter (\<lambda>kv. snd kv \<noteq> JUndefined) kvs))"

text \<open>
  A post in a response: the keys in the order of the object literal of the creation
  handler, a key whose value is \<^verbatim>\<open>undefined\<close> left out, \<^verbatim>\<open>null\<close> kept.
\<close>

definition json_of_post :: "post \<Rightarrow> (string \<times> js_value) list" where
  "json_of_post p =
     map (\<lambda>kv. (fst kv, json_value (snd kv)))
       (filter (\<lambda>kv. snd kv \<noteq> JUndefined)
          [(''id'', JStr (post_id p)),
           (''title'', title p),
           (''description'', description p),
           (''image'', case post_image p of None \<Rightarrow> JNull | Some s \<Rightarrow> JStr s),
           (''video'', case post_video p of None \<Rightarrow> JNull | Some s \<Rightarrow> JStr s),
           (''actress'', actress p)])"

section \<open>Routes and sequences of requests\<close>

datatype request =
    CreatePost entropy create_request
  | ListPosts
  | GetPost string
  | UpdatePost string update_body
  | DeletePost string

fun serve :: "request \<Rightarrow> state \<Rightarrow> response \<times> state" where
  "serve (CreatePost e req) st = create_post e req st"
| "serve ListPosts st = list_posts st"
| "serve (GetPost i) st = get_post i st"
| "serve (UpdatePost i b) st = update_post i b st"
| "serve (DeletePost i) st = delete_post i st"

fun run :: "request list \<Rightarrow> state \<Rightarrow> state" where
  "run [] st = st"
| "run (r # rs) st = run rs (snd (serve r st))"

section \<open>Derived notions\<close>

text \<open>The disk after the storage engine has handled one optional part.\<close>

definition written :: "string \<Rightarrow> nat \<Rightarrow> file_part option \<Rightarrow> (string \<rightharpoonup> bytes) \<Rightarrow> (string \<rightharpoonup> bytes)" where
  "written uuid now part d =
     (case part of
        None \<Rightarrow> d
      | Some file \<Rightarrow> d(destination file @ ''/'' @ filename uuid now file \<mapsto> buffer file))"

text \<open>The disk after the upload middleware of a creation request.\<close>

definition uploaded :: "entropy \<Rightarrow> create_request \<Rightarrow> (string \<rightharpoonup> bytes) \<Rightarrow> (string \<rightharpoonup> bytes)" where
  "uploaded e req d =
     written (video_uuid e) (video_now e) (files_video req)
       (written (image_uuid e) (image_now e) (files_image req) d)"

text \<open>The record that an accepted creation request appends.\<close>

definition created :: "entropy \<Rightarrow> create_request \<Rightarrow> post" where
  "created e req =
     newPost e req (map_option (filename (image_uuid e) (image_now e)) (files_image req))
       (map_option (filename (video_uuid e) (video_now e)) (files_video req))"

text \<open>The records that the accepted creation requests of a sequence append, in order.\<close>

fun created_by :: "request list \<Rightarrow> post list" where
  "created_by [] = []"
| "created_by (CreatePost e req # rs) =
     (if id_rejected (body_id req) then created_by rs else created e req # created_by rs)"
| "created_by (r # rs) = created_by rs"

text \<open>The record that an update request leaves in place of the record it found.\<close>

definition patched :: "update_body \<Rightarrow> post \<Rightarrow> post" where
  "patched b p =
     p\<lparr>title := js_or (upd_title b) (title p),
       description := js_or (upd_description b) (description p),
       actress := js_or (upd_actress b) (actress p)\<rparr>"

text \<open>The fields of a record that no handler assigns after the creation.\<close>

definition fixed_part :: "post \<Rightarrow> string \<times> string option \<times> string option" where
  "fixed_part p = (post_id p, post_image p, post_video p)"

text \<open>
  Where the record at index \<open>n\<close> of the array is after a request. Only
  \<^verbatim>\<open>posts.splice(postIndex, 1)\<close> moves records: the record at \<^verbatim>\<open>postIndex\<close> is gone and
  those behind it move one place to the front. \<^const>\<open>None\<close>: the record is gone.
\<close>

fun moved :: "request \<Rightarrow> state \<Rightarrow> nat \<Rightarrow> nat option" where
  "moved (DeletePost i) st n =
     (case findIndex (\<lambda>p. post_id p = i) (posts st) of
        None \<Rightarrow> Some n
      | Some k \<Rightarrow> if k = n then None else if k < n then Some (n - 1) else Some n)"
| "moved r st n = Some n"

text \<open>The same over a sequence of requests.\<close>

fun follow :: "request list \<Rightarrow> state \<Rightarrow> nat \<Rightarrow> nat option" where
  "follow [] st n = Some n"
| "follow (r # rs) st n =
     (case moved r st n of
        None \<Rightarrow> None
      | Some n' \<Rightarrow> follow rs (snd (serve r st)) n')"

text \<open>\<^verbatim>\<open>uuidv4()\<close> returns a string of 36 characters; only that it is not empty matters here.\<close>

fun generates_id :: "request \<Rightarrow> bool" where
  "generates_id (CreatePost e req) = (id_uuid e \<noteq> [])"
| "generates_id r = True"

section \<open>Sample requests and states\<close>

definition sample_entropy :: entropy where
  "sample_entropy =
     \<lparr>image_uuid = ''9b1deb4d-3b7d-4bad-9bdf-2b0d7b3dcb6d'', image_now = 1700000000000,
      video_uuid = ''1b9d6bcd-bbfd-4b2d-9b5d-ab8dfbbd4bed'', video_now = 1700000000001,
      id_uuid = ''6ec0bd7f-11c0-43da-975e-2a8ad9ebae0b''\<rparr>"

definition clip_part :: file_part where
  "clip_part = \<lparr>mimetype = ''video/mp4'', extname = ''.mp4'', buffer = [0, 1, 2]\<rparr>"

definition photo_part :: file_part where
  "photo_part = \<lparr>mimetype = ''image/png'', extname = ''.png'', buffer = [137, 80, 78, 71]\<rparr>"

text \<open>A multipart form with text fields only.\<close>

definition plain_form :: "string option \<Rightarrow> string option \<Rightarrow> string option \<Rightarrow> create_request" where
  "plain_form i t d =
     \<lparr>body_id = i, body_title = t, body_description = d, body_actress = None,
      files_image = None, files_video = None\<rparr>"

text \<open>A form whose \<^verbatim>\<open>image\<close> part is a file of a video type.\<close>

definition clip_as_image :: create_request where
  "clip_as_image = (plain_form (Some ''7'') (Some ''Trailer'') None)\<lparr>files_image := Some clip_part\<rparr>"

definition plain_post :: "string \<Rightarrow> string \<Rightarrow> post" where
  "plain_post i t =
     \<lparr>post_id = i, title = JStr t, description = JUndefined, post_image = None,
      post_video = None, actress = JUndefined\<rparr>"

definition no_fields :: update_body where
  "no_fields =
     \<lparr>upd_id = JUndefined, upd_title = JUndefined, upd_description = JUndefined,
      upd_image = JUndefined, upd_video = JUndefined, upd_actress = JUndefined\<rparr>"

section \<open>Basic facts\<close>

lemma findIndex_None_iff: "findIndex P xs = None \<longleftrightarrow> (\<forall>x \<in> set xs. \<not> P x)"
  by (induction xs) auto

lemma findIndex_Some:
  "findIndex P xs = Some k \<Longrightarrow> k < length xs \<and> P (xs ! k) \<and> (\<forall>j < k. \<not> P (xs ! j))"
proof (induction xs arbitrary: k)
  case Nil
  then show ?case by simp
next
  case (Cons x xs)
  show ?case
  proof (cases "P x")
    case True
    with Cons.prems show ?thesis by simp
  next
    case False
    with Cons.prems obtain k' where k: "findIndex P xs = Some k'" "k = Suc k'"
      by auto
    from Cons.IH [OF k(1)] False k(2) show ?thesis
      by (auto simp: less_Suc_eq_0_disj)
  qed
qed

lemma find_findIndex: "find P xs = map_option (\<lambda>k. xs ! k) (findIndex P xs)"
  by (induction xs) (auto simp: option.map_comp comp_def)

lemmas isNaN_defs =
  isNaN_def is_StringNumericLiteral_def trim_StrWhiteSpace_def is_StrWhiteSpaceChar_def
  is_StrDecimalLiteral_def is_StrUnsignedDecimalLiteral_def is_NonDecimalIntegerLiteral_def
  is_DecimalDigit_def is_DecimalDigits_def is_BinaryDigit_def is_OctalDigit_def is_HexDigit_def

lemmas sample_defs =
  sample_entropy_def clip_part_def photo_part_def plain_form_def clip_as_image_def
  plain_post_def no_fields_def initial_def

lemma isNaN_Nil: "\<not> isNaN []"
  by (simp add: isNaN_def is_StringNumericLiteral_def trim_StrWhiteSpace_def)

lemma store_opt_eq:
  "store_opt uuid now part d = (map_option (filename uuid now) part, written uuid now part d)"
  by (simp add: store_opt_def store_file_def written_def Let_def split: option.split)

lemma create_post_rejected:
  "id_rejected (body_id req) \<Longrightarrow>
   create_post e req st =
     (Response 400 (Message ''ID must be a valid number''), st\<lparr>disk := uploaded e req (disk st)\<rparr>)"
  by (simp add: create_post_def store_opt_eq uploaded_def)

lemma create_post_accepted:
  "\<not> id_rejected (body_id req) \<Longrightarrow>
   create_post e req st =
     (Response 201 (MessagePost ''Post created successfully'' (created e req)),
      st\<lparr>disk := uploaded e req (disk st), posts := posts st @ [created e req]\<rparr>)"
  by (simp add: create_post_def store_opt_eq uploaded_def created_def Let_def)

lemma update_post_found:
  "findIndex (\<lambda>p. post_id p = i) (posts st) = Some k \<Longrightarrow>
   update_post i b st =
     (Response 200 (MessagePost ''Post updated successfully'' (patched b (posts st ! k))),
      st\<lparr>posts := (posts st)[k := patched b (posts st ! k)]\<rparr>)"
  by (simp add: update_post_def patched_def Let_def)

lemma unknown_id:
  assumes "\<forall>p \<in> set (posts st). post_id p \<noteq> i"
  shows "get_post i st = (Response 404 (Message ''Post not found''), st)"
    and "update_post i b st = (Response 404 (Message ''Post not found''), st)"
    and "delete_post i st = (Response 404 (Message ''Post not found''), st)"
proof -
  from assms have none: "findIndex (\<lambda>p. post_id p = i) (posts st) = None"
    by (simp add: findIndex_None_iff)
  show "get_post i st = (Response 404 (Message ''Post not found''), st)"
    by (simp add: get_post_def find_findIndex none)
  show "update_post i b st = (Response 404 (Message ''Post not found''), st)"
    by (simp add: update_post_def none)
  show "delete_post i st = (Response 404 (Message ''Post not found''), st)"
    by (simp add: delete_post_def none)
qed

lemmas create_defs =
  created_def newPost_def postId_def field_def filename_def uploaded_def written_def
  destination_def startsWith_def id_rejected_def

section \<open>Creation: where the file is written and where the record points\<close>

text \<open>
  C1. The claim: for a creation request with an image part, \<^verbatim>\<open>post.image\<close> is
  \<^verbatim>\<open>/uploads/images/<name>\<close> and the uploaded bytes are on disk at that path, the
  directory being the one the content type selects. The handler takes the directory
  from the name of the form field, the storage engine from the content type. For an
  \<^verbatim>\<open>image\<close> part declared as \<^verbatim>\<open>video/mp4\<close> the two differ: the record points into
  \<^verbatim>\<open>uploads/images\<close>, where nothing was written, and the bytes are in
  \<^verbatim>\<open>uploads/videos\<close>.
\<close>

theorem image_part_of_video_type_is_misreferenced:
  "fst (create_post sample_entropy clip_as_image initial) =
     Response 201 (MessagePost ''Post created successfully''
       \<lparr>post_id = ''7'', title = JStr ''Trailer'', description = JUndefined,
        post_image = Some ''/uploads/images/9b1deb4d-3b7d-4bad-9bdf-2b0d7b3dcb6d-1700000000000.mp4'',
        post_video = None, actress = JUndefined\<rparr>) \<and>
   disk (snd (create_post sample_entropy clip_as_image initial))
     ''uploads/images/9b1deb4d-3b7d-4bad-9bdf-2b0d7b3dcb6d-1700000000000.mp4'' = None \<and>
   disk (snd (create_post sample_entropy clip_as_image initial))
     ''uploads/videos/9b1deb4d-3b7d-4bad-9bdf-2b0d7b3dcb6d-1700000000000.mp4'' = Some [0, 1, 2]"
proof -
  have ok: "\<not> id_rejected (body_id clip_as_image)"
    by (simp add: id_rejected_def sample_defs isNaN_defs)
  show ?thesis
    unfolding create_post_accepted [OF ok]
    by (simp add: create_defs sample_defs decimal.simps)
qed

text \<open>
  Where the content type of the image part does not begin with \<^verbatim>\<open>video\<close>, the record
  does point at the written file.
\<close>

lemma image_reference_is_written_path:
  assumes "files_image req = Some file" and "\<not> startsWith (mimetype file) ''video''"
    and "files_video req = None" and "\<not> id_rejected (body_id req)"
  shows "post_image (created e req) =
           Some (''/uploads/images/'' @ filename (image_uuid e) (image_now e) file) \<and>
         disk (snd (create_post e req st))
           (''uploads/images/'' @ filename (image_uuid e) (image_now e) file) = Some (buffer file)"
  using assms
  by (simp add: create_post_accepted created_def newPost_def uploaded_def written_def
      destination_def)

section \<open>Creation: validation of the id\<close>

text \<open>
  C5. A creation request whose supplied id is not a numeric string (its numeric
  coercion is NaN, as for \<^verbatim>\<open>abc\<close>) is answered with status 400 and the message
  \<^verbatim>\<open>ID must be a valid number\<close>, and the collection is left as it was, so the number
  of posts does not grow.
\<close>

theorem invalid_id_rejected:
  assumes "body_id req = Some s" and "isNaN s"
  shows "fst (create_post e req st) = Response 400 (Message ''ID must be a valid number'') \<and>
         posts (snd (create_post e req st)) = posts st \<and>
         length (posts (snd (create_post e req st))) = length (posts st)"
proof -
  from assms(2) have "s \<noteq> []"
    using isNaN_Nil by auto
  with assms have "id_rejected (body_id req)"
    by (simp add: id_rejected_def)
  then show ?thesis
    by (simp add: create_post_rejected)
qed

theorem invalid_id_rejected_witness:
  "isNaN ''abc'' \<and>
   fst (create_post sample_entropy (plain_form (Some ''abc'') (Some ''A'') None) initial) =
     Response 400 (Message ''ID must be a valid number'') \<and>
   posts (snd (create_post sample_entropy (plain_form (Some ''abc'') (Some ''A'') None) initial)) = []"
proof -
  have nan: "isNaN ''abc''"
    by (simp add: isNaN_defs)
  have fld: "body_id (plain_form (Some ''abc'') (Some ''A'') None) = Some ''abc''"
    by (simp add: plain_form_def)
  from invalid_id_rejected [OF fld nan, of sample_entropy initial] nan show ?thesis
    by (simp add: initial_def)
qed

text \<open>
  C10. The validator accepts every supplied id whose numeric coercion is not NaN, not
  only strings of digits: \<^verbatim>\<open>1e5\<close>, \<^verbatim>\<open>12.5\<close>, \<^verbatim>\<open> 42 \<close> with its blanks and
  \<^verbatim>\<open>Infinity\<close> pass and are stored as they were sent. A supplied empty string counts
  as no id: the record gets the generated token.
\<close>

theorem coercible_id_accepted:
  assumes "body_id req = Some s"
  shows "(s \<noteq> [] \<and> \<not> isNaN s \<longrightarrow>
            create_post e req st =
              (Response 201 (MessagePost ''Post created successfully'' (created e req)),
               st\<lparr>disk := uploaded e req (disk st), posts := posts st @ [created e req]\<rparr>) \<and>
            post_id (created e req) = s) \<and>
         (s = [] \<longrightarrow>
            create_post e req st =
              (Response 201 (MessagePost ''Post created successfully'' (created e req)),
               st\<lparr>disk := uploaded e req (disk st), posts := posts st @ [created e req]\<rparr>) \<and>
            post_id (created e req) = id_uuid e) \<and>
         \<not> isNaN ''1e5'' \<and> \<not> isNaN ''12.5'' \<and> \<not> isNaN '' 42 '' \<and> \<not> isNaN ''Infinity'' \<and>
         \<not> list_all is_DecimalDigit ''1e5'' \<and> \<not> list_all is_DecimalDigit ''12.5'' \<and>
         \<not> list_all is_DecimalDigit '' 42 '' \<and> \<not> list_all is_DecimalDigit ''Infinity''"
proof -
  have "\<not> isNaN ''1e5''" "\<not> isNaN ''12.5''" "\<not> isNaN '' 42 ''" "\<not> isNaN ''Infinity''"
    by (simp_all add: isNaN_defs)
  moreover have "\<not> list_all is_DecimalDigit ''1e5''" "\<not> list_all is_DecimalDigit ''12.5''"
    "\<not> list_all is_DecimalDigit '' 42 ''" "\<not> list_all is_DecimalDigit ''Infinity''"
    by (simp_all add: is_DecimalDigit_def)
  moreover have "\<not> isNaN s \<or> s = [] \<Longrightarrow> \<not> id_rejected (body_id req)"
    using assms by (auto simp: id_rejected_def)
  moreover have "post_id (created e req) = (if s \<noteq> [] then s else id_uuid e)"
    using assms by (simp add: created_def newPost_def postId_def)
  ultimately show ?thesis
    by (auto simp: create_post_accepted)
qed

theorem coercible_id_accepted_witness:
  "\<not> isNaN '' 42 '' \<and>
   post_id (created sample_entropy (plain_form (Some '' 42 '') None None)) = '' 42 '' \<and>
   fst (create_post sample_entropy (plain_form (Some ''Infinity'') None None) initial) =
     Response 201 (MessagePost ''Post created successfully''
       \<lparr>post_id = ''Infinity'', title = JUndefined, description = JUndefined, post_image = None,
        post_video = None, actress = JUndefined\<rparr>) \<and>
   map post_id (posts (snd (create_post sample_entropy (plain_form (Some ''1e5'') None None) initial))) =
     [''1e5''] \<and>
   map post_id (posts (snd (create_post sample_entropy (plain_form (Some []) None None) initial))) =
     [''6ec0bd7f-11c0-43da-975e-2a8ad9ebae0b'']"
proof -
  have f: "\<And>s. body_id (plain_form (Some s) None None) = Some s"
    by (simp add: plain_form_def)
  note a = coercible_id_accepted [OF f, of "'' 42 ''" sample_entropy initial]
  note b = coercible_id_accepted [OF f, of "''Infinity''" sample_entropy initial]
  note c = coercible_id_accepted [OF f, of "''1e5''" sample_entropy initial]
  note d = coercible_id_accepted [OF f, of "[]" sample_entropy initial]
  have 0: "\<not> isNaN '' 42 ''"
    using a by simp
  have 1: "post_id (created sample_entropy (plain_form (Some '' 42 '') None None)) = '' 42 ''"
    using a by simp
  have 2: "fst (create_post sample_entropy (plain_form (Some ''Infinity'') None None) initial) =
     Response 201 (MessagePost ''Post created successfully''
       \<lparr>post_id = ''Infinity'', title = JUndefined, description = JUndefined, post_image = None,
        post_video = None, actress = JUndefined\<rparr>)"
    using b by (simp add: created_def newPost_def postId_def field_def plain_form_def)
  have 3: "map post_id (posts (snd (create_post sample_entropy (plain_form (Some ''1e5'') None None) initial))) =
     [''1e5'']"
    using c by (simp add: initial_def)
  have 4: "map post_id (posts (snd (create_post sample_entropy (plain_form (Some []) None None) initial))) =
     [''6ec0bd7f-11c0-43da-975e-2a8ad9ebae0b'']"
    using d by (simp add: initial_def sample_entropy_def)
  from 0 1 2 3 4 show ?thesis by simp
qed

section \<open>Facts about the collection\<close>

lemma find_append_first:
  "find P (xs @ ys) = (case find P xs of None \<Rightarrow> find P ys | Some x \<Rightarrow> Some x)"
  by (induction xs) auto

lemma findIndex_update:
  "findIndex P xs = Some k \<Longrightarrow> P y \<Longrightarrow> findIndex P (xs[k := y]) = Some k"
proof (induction xs arbitrary: k)
  case Nil
  then show ?case by simp
next
  case (Cons x xs)
  show ?case
  proof (cases "P x")
    case True
    with Cons.prems show ?thesis by simp
  next
    case False
    with Cons.prems obtain k' where k: "findIndex P xs = Some k'" "k = Suc k'"
      by auto
    from Cons.IH [OF k(1) Cons.prems(2)] False k(2) show ?thesis
      by simp
  qed
qed

lemma findIndex_splits:
  assumes "findIndex P xs = Some k"
  shows "xs = take k xs @ xs ! k # drop (Suc k) xs \<and> P (xs ! k) \<and> (\<forall>x \<in> set (take k xs). \<not> P x)"
proof -
  from findIndex_Some [OF assms]
  have k: "k < length xs" and hit: "P (xs ! k)" and before: "\<forall>j < k. \<not> P (xs ! j)"
    by auto
  from k have "xs = take k xs @ xs ! k # drop (Suc k) xs"
    by (rule id_take_nth_drop)
  moreover have "\<forall>x \<in> set (take k xs). \<not> P x"
  proof
    fix x assume "x \<in> set (take k xs)"
    then obtain j where "j < length (take k xs)" "take k xs ! j = x"
      by (auto simp: in_set_conv_nth)
    with before k show "\<not> P x" by auto
  qed
  ultimately show ?thesis using hit by blast
qed

lemma patched_fixed:
  "post_id (patched b p) = post_id p" "post_image (patched b p) = post_image p"
  "post_video (patched b p) = post_video p"
  by (simp_all add: patched_def)

section \<open>Creation followed by a lookup\<close>

text \<open>
  C2, as the claim states it, fails where a record with id \<^verbatim>\<open>42\<close> is already stored:
  nothing prevents a second one, the creation answers 201, and the lookup returns the
  first record with that id, the older one. Two creations with the id \<^verbatim>\<open>42\<close> on the
  empty store show it.
\<close>

theorem get_after_duplicate_create_counterexample:
  "fst (serve (CreatePost sample_entropy (plain_form (Some ''42'') (Some ''new'') None))
          (run [CreatePost sample_entropy (plain_form (Some ''42'') (Some ''old'') None)] initial)) =
     Response 201 (MessagePost ''Post created successfully'' (plain_post ''42'' ''new'')) \<and>
   fst (serve (GetPost ''42'')
          (run [CreatePost sample_entropy (plain_form (Some ''42'') (Some ''old'') None),
                CreatePost sample_entropy (plain_form (Some ''42'') (Some ''new'') None)] initial)) =
     Response 200 (PostBody (plain_post ''42'' ''old'')) \<and>
   plain_post ''42'' ''old'' \<noteq> plain_post ''42'' ''new''"
proof -
  have ok: "\<not> id_rejected (body_id (plain_form (Some ''42'') t None))" for t
    by (simp add: id_rejected_def plain_form_def isNaN_defs)
  have c: "created sample_entropy (plain_form (Some ''42'') (Some t) None) = plain_post ''42'' t" for t
    by (simp add: create_defs sample_defs)
  show ?thesis
    by (simp add: create_post_accepted [OF ok] c get_post_def) (simp add: plain_post_def initial_def)
qed

text \<open>
  C2, amended. A creation request supplying a numeric-string id (\<^verbatim>\<open>42\<close>) is answered
  with 201 and the full record, which is appended to the collection. When no stored
  record has that id yet, the lookup of the id then returns exactly the record just
  created; when one has, the lookup returns the first stored record with the id, an
  older one. Ids are compared as strings: the lookup of any other string that no stored
  record has, \<^verbatim>\<open>42.0\<close> for one, is answered with 404.
\<close>

theorem create_then_get:
  assumes "body_id req = Some i" and "i \<noteq> []" and "\<not> isNaN i"
  shows "\<exists>st'. create_post e req st =
             (Response 201 (MessagePost ''Post created successfully'' (created e req)), st') \<and>
           created e req =
             \<lparr>post_id = i, title = field (body_title req),
              description = field (body_description req),
              post_image = map_option (\<lambda>name. ''/uploads/images/'' @ name)
                (map_option (filename (image_uuid e) (image_now e)) (files_image req)),
              post_video = map_option (\<lambda>name. ''/uploads/videos/'' @ name)
                (map_option (filename (video_uuid e) (video_now e)) (files_video req)),
              actress = field (body_actress req)\<rparr> \<and>
           posts st' = posts st @ [created e req] \<and>
           ((\<forall>p \<in> set (posts st). post_id p \<noteq> i) \<longrightarrow>
              get_post i st' = (Response 200 (PostBody (created e req)), st')) \<and>
           (\<forall>p. find (\<lambda>p. post_id p = i) (posts st) = Some p \<longrightarrow>
              get_post i st' = (Response 200 (PostBody p), st')) \<and>
           (\<forall>j. j \<noteq> i \<and> (\<forall>p \<in> set (posts st). post_id p \<noteq> j) \<longrightarrow>
              get_post j st' = (Response 404 (Message ''Post not found''), st'))"
proof -
  let ?c = "created e req"
  let ?st' = "st\<lparr>disk := uploaded e req (disk st), posts := posts st @ [?c]\<rparr>"
  from assms have ok: "\<not> id_rejected (body_id req)"
    by (simp add: id_rejected_def)
  have rec: "?c = \<lparr>post_id = i, title = field (body_title req),
              description = field (body_description req),
              post_image = map_option (\<lambda>name. ''/uploads/images/'' @ name)
                (map_option (filename (image_uuid e) (image_now e)) (files_image req)),
              post_video = map_option (\<lambda>name. ''/uploads/videos/'' @ name)
                (map_option (filename (video_uuid e) (video_now e)) (files_video req)),
              actress = field (body_actress req)\<rparr>"
    using assms(1,2) by (simp add: created_def newPost_def postId_def)
  then have cid: "post_id ?c = i"
    by simp
  have fresh: "get_post i ?st' = (Response 200 (PostBody ?c), ?st')"
    if "\<forall>p \<in> set (posts st). post_id p \<noteq> i"
  proof -
    from that have "find (\<lambda>p. post_id p = i) (posts st) = None"
      by (simp add: find_None_iff)
    then show ?thesis
      by (simp add: get_post_def find_append_first cid)
  qed
  have older: "get_post i ?st' = (Response 200 (PostBody p), ?st')"
    if "find (\<lambda>p. post_id p = i) (posts st) = Some p" for p
    using that by (simp add: get_post_def find_append_first)
  have other: "get_post j ?st' = (Response 404 (Message ''Post not found''), ?st')"
    if "j \<noteq> i" "\<forall>p \<in> set (posts st). post_id p \<noteq> j" for j
  proof (rule unknown_id(1))
    from that cid show "\<forall>p \<in> set (posts ?st'). post_id p \<noteq> j"
      by auto
  qed
  from create_post_accepted [OF ok, of e st] rec fresh older other show ?thesis
    by (intro exI [of _ ?st']) simp
qed

theorem create_then_get_witness:
  "''42'' \<noteq> [] \<and> \<not> isNaN ''42'' \<and>
   fst (create_post sample_entropy (plain_form (Some ''42'') (Some ''new'') None) initial) =
     Response 201 (MessagePost ''Post created successfully'' (plain_post ''42'' ''new'')) \<and>
   fst (get_post ''42''
          (snd (create_post sample_entropy (plain_form (Some ''42'') (Some ''new'') None) initial))) =
     Response 200 (PostBody (plain_post ''42'' ''new'')) \<and>
   fst (get_post ''42.0''
          (snd (create_post sample_entropy (plain_form (Some ''42'') (Some ''new'') None) initial))) =
     Response 404 (Message ''Post not found'') \<and>
   find (\<lambda>p. post_id p = ''42'')
     (posts (initial\<lparr>posts := [plain_post ''7'' ''x'', plain_post ''42'' ''old'']\<rparr>)) =
     Some (plain_post ''42'' ''old'') \<and>
   fst (get_post ''42''
          (snd (create_post sample_entropy (plain_form (Some ''42'') (Some ''new'') None)
                  (initial\<lparr>posts := [plain_post ''7'' ''x'', plain_post ''42'' ''old'']\<rparr>)))) =
     Response 200 (PostBody (plain_post ''42'' ''old''))"
proof -
  let ?req = "plain_form (Some ''42'') (Some ''new'') None"
  let ?dup = "initial\<lparr>posts := [plain_post ''7'' ''x'', plain_post ''42'' ''old'']\<rparr>"
  have h1: "body_id ?req = Some ''42''"
    by (simp add: plain_form_def)
  have h2: "''42'' \<noteq> []"
    by simp
  have h3: "\<not> isNaN ''42''"
    by (simp add: isNaN_defs)
  have h4: "\<forall>p \<in> set (posts initial). post_id p \<noteq> ''42''"
    by (simp add: initial_def)
  have h5: "find (\<lambda>p. post_id p = ''42'') (posts ?dup) = Some (plain_post ''42'' ''old'')"
    by (simp add: sample_defs)
  have c: "created sample_entropy ?req = plain_post ''42'' ''new''"
    by (simp add: create_defs sample_defs)
  from create_then_get [OF h1 h2 h3, of sample_entropy initial] h4 obtain st' where
    st': "create_post sample_entropy ?req initial =
            (Response 201 (MessagePost ''Post created successfully'' (created sample_entropy ?req)), st')"
      "get_post ''42'' st' = (Response 200 (PostBody (created sample_entropy ?req)), st')"
      "\<forall>j. j \<noteq> ''42'' \<and> (\<forall>p \<in> set (posts initial). post_id p \<noteq> j) \<longrightarrow>
         get_post j st' = (Response 404 (Message ''Post not found''), st')"
    by blast
  from st'(3) have nf: "get_post ''42.0'' st' = (Response 404 (Message ''Post not found''), st')"
    by (simp add: initial_def)
  from create_then_get [OF h1 h2 h3, of sample_entropy ?dup] h5 obtain st2 where
    st2: "create_post sample_entropy ?req ?dup =
            (Response 201 (MessagePost ''Post created successfully'' (created sample_entropy ?req)), st2)"
      "get_post ''42'' st2 = (Response 200 (PostBody (plain_post ''42'' ''old'')), st2)"
    by blast
  from st'(1,2) nf st2 c h2 h3 h5 show ?thesis
    by simp
qed

lemma map_update_same:
  "k < length xs \<Longrightarrow> f y = f (xs ! k) \<Longrightarrow> map f (xs[k := y]) = map f xs"
  by (auto intro!: nth_equalityI simp: nth_list_update)

lemma delete_post_found:
  "findIndex (\<lambda>p. post_id p = i) (posts st) = Some k \<Longrightarrow>
   delete_post i st =
     (Response 200 (Message ''Post deleted successfully''),
      st\<lparr>posts := take k (posts st) @ drop (Suc k) (posts st)\<rparr>)"
  by (simp add: delete_post_def)

section \<open>Unknown ids\<close>

text \<open>
  C3, as the claim states it, fails where two stored records have the id \<^verbatim>\<open>5\<close>, as
  after two creations with that id: the deletion removes the first of them only, so the
  lookup that follows finds the second and a repeated deletion succeeds once more.
\<close>

theorem delete_one_of_two_counterexample:
  "fst (serve (DeletePost ''5'')
          (run [CreatePost sample_entropy (plain_form (Some ''5'') (Some ''A'') None),
                CreatePost sample_entropy (plain_form (Some ''5'') (Some ''B'') None)] initial)) =
     Response 200 (Message ''Post deleted successfully'') \<and>
   fst (serve (GetPost ''5'')
          (run [CreatePost sample_entropy (plain_form (Some ''5'') (Some ''A'') None),
                CreatePost sample_entropy (plain_form (Some ''5'') (Some ''B'') None),
                DeletePost ''5''] initial)) =
     Response 200 (PostBody (plain_post ''5'' ''B'')) \<and>
   fst (serve (DeletePost ''5'')
          (run [CreatePost sample_entropy (plain_form (Some ''5'') (Some ''A'') None),
                CreatePost sample_entropy (plain_form (Some ''5'') (Some ''B'') None),
                DeletePost ''5''] initial)) =
     Response 200 (Message ''Post deleted successfully'')"
proof -
  have ok: "\<not> id_rejected (body_id (plain_form (Some ''5'') t None))" for t
    by (simp add: id_rejected_def plain_form_def isNaN_defs)
  have c: "created sample_entropy (plain_form (Some ''5'') (Some t) None) = plain_post ''5'' t" for t
    by (simp add: create_defs sample_defs)
  show ?thesis
    by (simp add: create_post_accepted [OF ok] c get_post_def delete_post_def)
      (simp add: plain_post_def initial_def)
qed

text \<open>
  C3, amended. When exactly one stored record has the id (\<^verbatim>\<open>5\<close>), its deletion
  succeeds, the lookup of that id then answers 404 with \<^verbatim>\<open>Post not found\<close>, and so
  does a repeated deletion. In any state, a lookup, an update or a deletion that
  addresses an id no stored record has answers 404 and leaves the state as it was.
\<close>

theorem delete_then_not_found:
  assumes "length (filter (\<lambda>p. post_id p = i) (posts st)) = 1"
  shows "\<exists>st'. delete_post i st = (Response 200 (Message ''Post deleted successfully''), st') \<and>
           get_post i st' = (Response 404 (Message ''Post not found''), st') \<and>
           delete_post i st' = (Response 404 (Message ''Post not found''), st') \<and>
           (\<forall>j b s. (\<forall>p \<in> set (posts s). post_id p \<noteq> j) \<longrightarrow>
              get_post j s = (Response 404 (Message ''Post not found''), s) \<and>
              update_post j b s = (Response 404 (Message ''Post not found''), s) \<and>
              delete_post j s = (Response 404 (Message ''Post not found''), s))"
proof -
  let ?P = "\<lambda>p. post_id p = i"
  from assms have "filter ?P (posts st) \<noteq> []"
    by auto
  then have "\<not> (\<forall>p \<in> set (posts st). \<not> ?P p)"
    by (simp add: filter_empty_conv)
  then obtain k where k: "findIndex ?P (posts st) = Some k"
    using findIndex_None_iff [of ?P "posts st"] by (cases "findIndex ?P (posts st)") auto
  let ?rest = "take k (posts st) @ drop (Suc k) (posts st)"
  let ?st' = "st\<lparr>posts := ?rest\<rparr>"
  from findIndex_splits [OF k]
  have split: "posts st = take k (posts st) @ posts st ! k # drop (Suc k) (posts st)"
    and hit: "?P (posts st ! k)"
    by auto
  have "length (filter ?P (posts st)) = Suc (length (filter ?P ?rest))"
    using hit by (subst split) simp
  with assms have "filter ?P ?rest = []"
    by simp
  then have gone: "\<forall>p \<in> set (posts ?st'). post_id p \<noteq> i"
    by (auto simp: filter_empty_conv)
  from delete_post_found [OF k] unknown_id(1) [OF gone] unknown_id(3) [OF gone] show ?thesis
    by (intro exI [of _ ?st']) (simp add: unknown_id)
qed

theorem delete_then_not_found_witness:
  "length (filter (\<lambda>p. post_id p = ''5'')
     (posts (initial\<lparr>posts := [plain_post ''4'' ''A'', plain_post ''5'' ''B'']\<rparr>))) = 1 \<and>
   delete_post ''5'' (initial\<lparr>posts := [plain_post ''4'' ''A'', plain_post ''5'' ''B'']\<rparr>) =
     (Response 200 (Message ''Post deleted successfully''),
      initial\<lparr>posts := [plain_post ''4'' ''A'']\<rparr>) \<and>
   get_post ''5'' (initial\<lparr>posts := [plain_post ''4'' ''A'']\<rparr>) =
     (Response 404 (Message ''Post not found''), initial\<lparr>posts := [plain_post ''4'' ''A'']\<rparr>) \<and>
   delete_post ''5'' (initial\<lparr>posts := [plain_post ''4'' ''A'']\<rparr>) =
     (Response 404 (Message ''Post not found''), initial\<lparr>posts := [plain_post ''4'' ''A'']\<rparr>) \<and>
   update_post ''6'' no_fields (initial\<lparr>posts := [plain_post ''4'' ''A'']\<rparr>) =
     (Response 404 (Message ''Post not found''), initial\<lparr>posts := [plain_post ''4'' ''A'']\<rparr>)"
proof -
  let ?st = "initial\<lparr>posts := [plain_post ''4'' ''A'', plain_post ''5'' ''B'']\<rparr>"
  let ?st1 = "initial\<lparr>posts := [plain_post ''4'' ''A'']\<rparr>"
  have one: "length (filter (\<lambda>p. post_id p = ''5'') (posts ?st)) = 1"
    by (simp add: sample_defs)
  have del: "delete_post ''5'' ?st = (Response 200 (Message ''Post deleted successfully''), ?st1)"
    by (simp add: delete_post_def sample_defs)
  from delete_then_not_found [OF one] obtain st' where
    st': "delete_post ''5'' ?st = (Response 200 (Message ''Post deleted successfully''), st')"
      "get_post ''5'' st' = (Response 404 (Message ''Post not found''), st')"
      "delete_post ''5'' st' = (Response 404 (Message ''Post not found''), st')"
      "\<forall>j b s. (\<forall>p \<in> set (posts s). post_id p \<noteq> j) \<longrightarrow>
              get_post j s = (Response 404 (Message ''Post not found''), s) \<and>
              update_post j b s = (Response 404 (Message ''Post not found''), s) \<and>
              delete_post j s = (Response 404 (Message ''Post not found''), s)"
    by blast
  from st'(1) del have eq: "st' = ?st1"
    by simp
  have "\<forall>p \<in> set (posts ?st1). post_id p \<noteq> ''6''"
    by (simp add: sample_defs)
  with st'(4) have "update_post ''6'' no_fields ?st1 = (Response 404 (Message ''Post not found''), ?st1)"
    by blast
  with one del st'(2,3) eq show ?thesis
    by simp
qed

section \<open>Partial update\<close>

text \<open>
  C4. For a stored post and any body, the update replaces \<^verbatim>\<open>title\<close>,
  \<^verbatim>\<open>description\<close> and \<^verbatim>\<open>actress\<close> exactly where the body's value is truthy; an empty
  string or an absent value leaves the stored field as it was. The answer is status 200
  with the updated record, which is also what a lookup of the id returns from then on.
\<close>

theorem update_coalesces_on_truthy:
  assumes "find (\<lambda>p. post_id p = i) (posts st) = Some p"
  shows "\<exists>p' st'. update_post i b st =
             (Response 200 (MessagePost ''Post updated successfully'' p'), st') \<and>
           find (\<lambda>p. post_id p = i) (posts st') = Some p' \<and>
           post_id p' = i \<and> post_image p' = post_image p \<and> post_video p' = post_video p \<and>
           title p' = (if truthy (upd_title b) then upd_title b else title p) \<and>
           description p' = (if truthy (upd_description b) then upd_description b else description p) \<and>
           actress p' = (if truthy (upd_actress b) then upd_actress b else actress p) \<and>
           (upd_title b = JUndefined \<or> upd_title b = JStr [] \<longrightarrow> title p' = title p) \<and>
           (upd_description b = JUndefined \<or> upd_description b = JStr [] \<longrightarrow>
              description p' = description p) \<and>
           (upd_actress b = JUndefined \<or> upd_actress b = JStr [] \<longrightarrow> actress p' = actress p)"
proof -
  let ?P = "\<lambda>p. post_id p = i"
  from assms obtain k where k: "findIndex ?P (posts st) = Some k" and p: "posts st ! k = p"
    by (auto simp: find_findIndex)
  let ?p' = "patched b p"
  let ?st' = "st\<lparr>posts := (posts st)[k := ?p']\<rparr>"
  from findIndex_Some [OF k] p have len: "k < length (posts st)" and pid: "post_id p = i"
    by auto
  from pid have "?P ?p'"
    by (simp add: patched_fixed)
  from findIndex_update [OF k this] len have found: "find ?P (posts ?st') = Some ?p'"
    by (simp add: find_findIndex)
  have upd: "update_post i b st = (Response 200 (MessagePost ''Post updated successfully'' ?p'), ?st')"
    using update_post_found [OF k] p by simp
  have fields: "title ?p' = (if truthy (upd_title b) then upd_title b else title p)"
    "description ?p' = (if truthy (upd_description b) then upd_description b else description p)"
    "actress ?p' = (if truthy (upd_actress b) then upd_actress b else actress p)"
    by (simp_all add: patched_def js_or_def)
  from upd found fields pid show ?thesis
    by (intro exI [of _ ?p'] exI [of _ ?st']) (auto simp: patched_fixed)
qed

theorem update_coalesces_on_truthy_witness:
  "find (\<lambda>p. post_id p = ''1'')
     (posts (initial\<lparr>posts := [(plain_post ''1'' ''A'')\<lparr>description := JStr ''B''\<rparr>]\<rparr>)) =
     Some ((plain_post ''1'' ''A'')\<lparr>description := JStr ''B''\<rparr>) \<and>
   fst (update_post ''1'' (no_fields\<lparr>upd_title := JStr ''C''\<rparr>)
          (initial\<lparr>posts := [(plain_post ''1'' ''A'')\<lparr>description := JStr ''B''\<rparr>]\<rparr>)) =
     Response 200 (MessagePost ''Post updated successfully''
       ((plain_post ''1'' ''C'')\<lparr>description := JStr ''B''\<rparr>)) \<and>
   fst (update_post ''1'' (no_fields\<lparr>upd_title := JStr []\<rparr>)
          (initial\<lparr>posts := [(plain_post ''1'' ''A'')\<lparr>description := JStr ''B''\<rparr>]\<rparr>)) =
     Response 200 (MessagePost ''Post updated successfully''
       ((plain_post ''1'' ''A'')\<lparr>description := JStr ''B''\<rparr>))"
proof -
  let ?p = "(plain_post ''1'' ''A'')\<lparr>description := JStr ''B''\<rparr>"
  let ?st = "initial\<lparr>posts := [?p]\<rparr>"
  have f: "find (\<lambda>p. post_id p = ''1'') (posts ?st) = Some ?p"
    by (simp add: sample_defs)
  from update_coalesces_on_truthy [OF f, of "no_fields\<lparr>upd_title := JStr ''C''\<rparr>"]
  obtain p1 st1 where 1:
    "update_post ''1'' (no_fields\<lparr>upd_title := JStr ''C''\<rparr>) ?st =
       (Response 200 (MessagePost ''Post updated successfully'' p1), st1)"
    "title p1 = JStr ''C''"
    by (auto simp: no_fields_def)
  from update_coalesces_on_truthy [OF f, of "no_fields\<lparr>upd_title := JStr []\<rparr>"]
  obtain p2 st2 where 2:
    "update_post ''1'' (no_fields\<lparr>upd_title := JStr []\<rparr>) ?st =
       (Response 200 (MessagePost ''Post updated successfully'' p2), st2)"
    "title p2 = title ?p"
    by (auto simp: no_fields_def)
  have e1: "fst (update_post ''1'' (no_fields\<lparr>upd_title := JStr ''C''\<rparr>) ?st) =
     Response 200 (MessagePost ''Post updated successfully''
       ((plain_post ''1'' ''C'')\<lparr>description := JStr ''B''\<rparr>))"
    using 1 by (simp add: update_post_def sample_defs js_or_def Let_def)
  have e2: "fst (update_post ''1'' (no_fields\<lparr>upd_title := JStr []\<rparr>) ?st) =
     Response 200 (MessagePost ''Post updated successfully'' ?p)"
    by (simp add: update_post_def sample_defs js_or_def Let_def)
  from f e1 e2 show ?thesis
    by simp
qed

text \<open>
  C6. An update never changes the \<^verbatim>\<open>id\<close>, \<^verbatim>\<open>image\<close> or \<^verbatim>\<open>video\<close> of any record,
  whatever the body holds under those names, and it changes no record but the first
  one with the requested id; the disk is left alone as well.
\<close>



theorem update_frame:
  "length (posts (snd (update_post i b st))) = length (posts st) \<and>
   map post_id (posts (snd (update_post i b st))) = map post_id (posts st) \<and>
   map post_image (posts (snd (update_post i b st))) = map post_image (posts st) \<and>
   map post_video (posts (snd (update_post i b st))) = map post_video (posts st) \<and>
   (\<forall>k. findIndex (\<lambda>p. post_id p = i) (posts st) \<noteq> Some k \<longrightarrow>
      posts (snd (update_post i b st)) ! k = posts st ! k) \<and>
   disk (snd (update_post i b st)) = disk st"
proof (cases "findIndex (\<lambda>p. post_id p = i) (posts st)")
  case None
  then show ?thesis
    by (simp add: update_post_def)
next
  case (Some k)
  from findIndex_Some [OF Some] have len: "k < length (posts st)"
    by simp
  show ?thesis
    by (simp add: update_post_found [OF Some] Some patched_fixed map_update_same [OF len])
qed

theorem update_frame_witness:
  "posts (snd (update_post ''2''
      \<lparr>upd_id = JStr ''9'', upd_title = JStr ''T'', upd_description = JUndefined,
       upd_image = JStr ''/uploads/images/x.png'', upd_video = JNull, upd_actress = JUndefined\<rparr>
      (initial\<lparr>posts := [plain_post ''1'' ''A'',
          (plain_post ''2'' ''B'')\<lparr>post_video := Some ''/uploads/videos/v.mp4''\<rparr>]\<rparr>))) =
   [plain_post ''1'' ''A'', (plain_post ''2'' ''T'')\<lparr>post_video := Some ''/uploads/videos/v.mp4''\<rparr>] \<and>
   map post_id (posts (snd (update_post ''2''
      \<lparr>upd_id = JStr ''9'', upd_title = JStr ''T'', upd_description = JUndefined,
       upd_image = JStr ''/uploads/images/x.png'', upd_video = JNull, upd_actress = JUndefined\<rparr>
      (initial\<lparr>posts := [plain_post ''1'' ''A'',
          (plain_post ''2'' ''B'')\<lparr>post_video := Some ''/uploads/videos/v.mp4''\<rparr>]\<rparr>)))) =
   [''1'', ''2'']"
proof -
  let ?b = "\<lparr>upd_id = JStr ''9'', upd_title = JStr ''T'', upd_description = JUndefined,
       upd_image = JStr ''/uploads/images/x.png'', upd_video = JNull, upd_actress = JUndefined\<rparr>"
  let ?st = "initial\<lparr>posts := [plain_post ''1'' ''A'',
          (plain_post ''2'' ''B'')\<lparr>post_video := Some ''/uploads/videos/v.mp4''\<rparr>]\<rparr>"
  have ids: "map post_id (posts ?st) = [''1'', ''2'']"
    by (simp add: sample_defs)
  have "posts (snd (update_post ''2'' ?b ?st)) =
     [plain_post ''1'' ''A'', (plain_post ''2'' ''T'')\<lparr>post_video := Some ''/uploads/videos/v.mp4''\<rparr>]"
    by (simp add: update_post_def sample_defs js_or_def Let_def)
  with update_frame [of "''2''" ?b ?st] ids show ?thesis
    by simp
qed

section \<open>What a request can change\<close>

lemma created_id:
  "post_id (created e req) =
     (case body_id req of None \<Rightarrow> id_uuid e | Some s \<Rightarrow> if s \<noteq> [] then s else id_uuid e)"
  by (simp add: created_def newPost_def postId_def)

lemma created_id_nonempty: "id_uuid e \<noteq> [] \<Longrightarrow> post_id (created e req) \<noteq> []"
  by (simp add: created_id split: option.split)

lemma posts_after_create:
  "posts (snd (create_post e req st)) =
     (if id_rejected (body_id req) then posts st else posts st @ [created e req])"
  by (simp add: create_post_rejected create_post_accepted)

lemma posts_after_update:
  "set (posts (snd (update_post i b st))) \<subseteq> set (posts st) \<union> patched b ` set (posts st)"
proof (cases "findIndex (\<lambda>p. post_id p = i) (posts st)")
  case None
  then show ?thesis
    by (simp add: update_post_def)
next
  case (Some k)
  from findIndex_Some [OF Some] have "posts st ! k \<in> set (posts st)"
    by simp
  then show ?thesis
    using set_update_subset_insert [of "posts st" k "patched b (posts st ! k)"]
    by (auto simp: update_post_found [OF Some])
qed

lemma posts_after_delete: "set (posts (snd (delete_post i st))) \<subseteq> set (posts st)"
proof (cases "findIndex (\<lambda>p. post_id p = i) (posts st)")
  case None
  then show ?thesis
    by (simp add: delete_post_def)
next
  case (Some k)
  then show ?thesis
    by (auto simp: delete_post_found dest: in_set_takeD in_set_dropD)
qed

lemma serve_fixed:
  "fixed_part ` set (posts (snd (serve r st))) \<subseteq>
     fixed_part ` set (posts st) \<union> fixed_part ` set (created_by [r])"
proof (cases r)
  case (CreatePost e req)
  then show ?thesis
    by (auto simp: posts_after_create)
next
  case ListPosts
  then show ?thesis
    by (simp add: list_posts_def)
next
  case (GetPost i)
  then show ?thesis
    by (simp add: get_post_def split: option.split)
next
  case (UpdatePost i b)
  have "fixed_part (patched b p) = fixed_part p" for p
    by (simp add: fixed_part_def patched_fixed)
  with posts_after_update [of i b st] UpdatePost show ?thesis
    by auto
next
  case (DeletePost i)
  with posts_after_delete [of i st] show ?thesis
    by auto
qed

lemma created_by_Cons: "set (created_by (r # rs)) = set (created_by [r]) \<union> set (created_by rs)"
  by (cases r) auto

lemma run_fixed:
  "fixed_part ` set (posts (run rs st)) \<subseteq>
     fixed_part ` set (posts st) \<union> fixed_part ` set (created_by rs)"
proof (induction rs arbitrary: st)
  case Nil
  then show ?case by simp
next
  case (Cons r rs)
  have "fixed_part ` set (posts (run (r # rs) st)) \<subseteq>
          fixed_part ` set (posts (snd (serve r st))) \<union> fixed_part ` set (created_by rs)"
    using Cons.IH [of "snd (serve r st)"] by simp
  also have "\<dots> \<subseteq> (fixed_part ` set (posts st) \<union> fixed_part ` set (created_by [r])) \<union>
                 fixed_part ` set (created_by rs)"
    using serve_fixed [of r st] by blast
  also have "\<dots> = fixed_part ` set (posts st) \<union> fixed_part ` set (created_by (r # rs))"
    using created_by_Cons [of r rs] by blast
  finally show ?case .
qed

section \<open>The id of a stored record is never empty\<close>

text \<open>
  C7. Every stored record has a non-empty id: this holds of the empty store and is kept
  by every sequence of requests, given that \<^verbatim>\<open>uuidv4()\<close> returns a non-empty token.
  A creation stores the supplied id when it is non-empty and passes the numeric
  validation, stores nothing when the id is non-empty and fails it, and stores the
  generated token when the id is absent or empty. No handler assigns an id afterwards.
\<close>

theorem ids_never_empty:
  assumes "list_all generates_id rs" and "list_all (\<lambda>p. post_id p \<noteq> []) (posts st)"
  shows "list_all (\<lambda>p. post_id p \<noteq> []) (posts (run rs st)) \<and>
         list_all (\<lambda>p. post_id p \<noteq> []) (posts initial) \<and>
         (\<forall>e req s. body_id req = Some s \<and> s \<noteq> [] \<and> \<not> isNaN s \<longrightarrow>
            posts (snd (create_post e req st)) = posts st @ [created e req] \<and>
            post_id (created e req) = s) \<and>
         (\<forall>e req s. body_id req = Some s \<and> s \<noteq> [] \<and> isNaN s \<longrightarrow>
            posts (snd (create_post e req st)) = posts st) \<and>
         (\<forall>e req. body_id req = None \<or> body_id req = Some [] \<longrightarrow>
            posts (snd (create_post e req st)) = posts st @ [created e req] \<and>
            post_id (created e req) = id_uuid e)"
proof -
  have ids: "post_id ` set (posts (run rs st)) \<subseteq>
               post_id ` set (posts st) \<union> post_id ` set (created_by rs)"
  proof -
    have "post_id ` A = fst ` fixed_part ` A" for A
      by (force simp: fixed_part_def image_iff)
    with run_fixed [of rs st] show ?thesis
      by (metis image_Un image_mono)
  qed
  have new: "[] \<notin> post_id ` set (created_by rs)"
    using assms(1)
  proof (induction rs)
    case Nil
    then show ?case by simp
  next
    case (Cons r rs)
    then show ?case
      by (cases r) (auto simp: created_id_nonempty created_id_nonempty [THEN not_sym])
  qed
  from assms(2) have "[] \<notin> post_id ` set (posts st)"
    unfolding list_all_iff by (metis imageE)
  with ids new have "[] \<notin> post_id ` set (posts (run rs st))"
    by blast
  then have inv: "list_all (\<lambda>p. post_id p \<noteq> []) (posts (run rs st))"
    unfolding list_all_iff by (metis imageI)
  have init: "list_all (\<lambda>p. post_id p \<noteq> []) (posts initial)"
    by (simp add: initial_def)
  have "posts (snd (create_post e req st)) = posts st @ [created e req] \<and>
        post_id (created e req) = s"
    if "body_id req = Some s" "s \<noteq> []" "\<not> isNaN s" for e req s
    using that by (simp add: posts_after_create created_id id_rejected_def)
  moreover have "posts (snd (create_post e req st)) = posts st"
    if "body_id req = Some s" "s \<noteq> []" "isNaN s" for e req s
    using that by (simp add: posts_after_create id_rejected_def)
  moreover have "posts (snd (create_post e req st)) = posts st @ [created e req] \<and>
        post_id (created e req) = id_uuid e"
    if "body_id req = None \<or> body_id req = Some []" for e req
    using that by (auto simp: posts_after_create created_id id_rejected_def)
  ultimately show ?thesis
    using inv init by blast
qed

theorem ids_never_empty_witness:
  "list_all generates_id
     [CreatePost sample_entropy (plain_form None (Some ''A'') None),
      CreatePost sample_entropy (plain_form (Some ''8'') (Some ''B'') None),
      UpdatePost ''8'' (no_fields\<lparr>upd_id := JStr []\<rparr>),
      CreatePost sample_entropy (plain_form (Some ''x'') None None),
      DeletePost ''9''] \<and>
   list_all (\<lambda>p. post_id p \<noteq> []) (posts initial) \<and>
   map post_id (posts (run
     [CreatePost sample_entropy (plain_form None (Some ''A'') None),
      CreatePost sample_entropy (plain_form (Some ''8'') (Some ''B'') None),
      UpdatePost ''8'' (no_fields\<lparr>upd_id := JStr []\<rparr>),
      CreatePost sample_entropy (plain_form (Some ''x'') None None),
      DeletePost ''9''] initial)) = [''6ec0bd7f-11c0-43da-975e-2a8ad9ebae0b'', ''8''] \<and>
   list_all (\<lambda>p. post_id p \<noteq> []) (posts (run
     [CreatePost sample_entropy (plain_form None (Some ''A'') None),
      CreatePost sample_entropy (plain_form (Some ''8'') (Some ''B'') None),
      UpdatePost ''8'' (no_fields\<lparr>upd_id := JStr []\<rparr>),
      CreatePost sample_entropy (plain_form (Some ''x'') None None),
      DeletePost ''9''] initial))"
proof -
  let ?rs = "[CreatePost sample_entropy (plain_form None (Some ''A'') None),
      CreatePost sample_entropy (plain_form (Some ''8'') (Some ''B'') None),
      UpdatePost ''8'' (no_fields\<lparr>upd_id := JStr []\<rparr>),
      CreatePost sample_entropy (plain_form (Some ''x'') None None),
      DeletePost ''9'']"
  have g: "list_all generates_id ?rs"
    by (simp add: sample_entropy_def)
  have i: "list_all (\<lambda>p. post_id p \<noteq> []) (posts initial)"
    by (simp add: initial_def)
  have r: "map post_id (posts (run ?rs initial)) = [''6ec0bd7f-11c0-43da-975e-2a8ad9ebae0b'', ''8'']"
    by (simp add: create_post_def store_opt_def newPost_def postId_def id_rejected_def field_def
        update_post_def delete_post_def sample_defs isNaN_defs js_or_def Let_def)
  from ids_never_empty [OF g i] g i r show ?thesis
    by simp
qed

section \<open>Listing and order\<close>

text \<open>
  C8. The listing returns the whole collection as it stands, in insertion order: after
  three accepted creations A, B, C the list is the earlier list followed by A, B, C in
  that order. A successful deletion removes the first record with the requested id and
  keeps the order of the others; an unsuccessful one (404) changes nothing.
\<close>

theorem listing_keeps_insertion_order:
  "list_posts st = (Response 200 (PostList (posts st)), st) \<and>
   (\<not> id_rejected (body_id a) \<and> \<not> id_rejected (body_id b) \<and> \<not> id_rejected (body_id c) \<longrightarrow>
      fst (list_posts (run [CreatePost ea a, CreatePost eb b, CreatePost ec c] st)) =
        Response 200 (PostList (posts st @ [created ea a, created eb b, created ec c]))) \<and>
   (status (fst (delete_post i st)) = 200 \<longrightarrow>
      (\<exists>xs p ys. posts st = xs @ p # ys \<and> post_id p = i \<and> (\<forall>q \<in> set xs. post_id q \<noteq> i) \<and>
         posts (snd (delete_post i st)) = xs @ ys)) \<and>
   (status (fst (delete_post i st)) \<noteq> 200 \<longrightarrow>
      status (fst (delete_post i st)) = 404 \<and> posts (snd (delete_post i st)) = posts st)"
proof -
  have l: "list_posts st = (Response 200 (PostList (posts st)), st)"
    by (simp add: list_posts_def)
  have three: "fst (list_posts (run [CreatePost ea a, CreatePost eb b, CreatePost ec c] st)) =
        Response 200 (PostList (posts st @ [created ea a, created eb b, created ec c]))"
    if "\<not> id_rejected (body_id a)" "\<not> id_rejected (body_id b)" "\<not> id_rejected (body_id c)"
    using that by (simp add: list_posts_def create_post_accepted)
  have d: "(status (fst (delete_post i st)) = 200 \<longrightarrow>
      (\<exists>xs p ys. posts st = xs @ p # ys \<and> post_id p = i \<and> (\<forall>q \<in> set xs. post_id q \<noteq> i) \<and>
         posts (snd (delete_post i st)) = xs @ ys)) \<and>
   (status (fst (delete_post i st)) \<noteq> 200 \<longrightarrow>
      status (fst (delete_post i st)) = 404 \<and> posts (snd (delete_post i st)) = posts st)"
  proof (cases "findIndex (\<lambda>p. post_id p = i) (posts st)")
    case None
    then show ?thesis
      by (simp add: delete_post_def)
  next
    case (Some k)
    from findIndex_splits [OF Some]
    have "posts st = take k (posts st) @ posts st ! k # drop (Suc k) (posts st)"
      and "post_id (posts st ! k) = i"
      and "\<forall>q \<in> set (take k (posts st)). post_id q \<noteq> i"
      by auto
    then have "\<exists>xs p ys. posts st = xs @ p # ys \<and> post_id p = i \<and>
        (\<forall>q \<in> set xs. post_id q \<noteq> i) \<and>
        take k (posts st) @ drop (Suc k) (posts st) = xs @ ys"
      by blast
    then show ?thesis
      by (simp add: delete_post_found [OF Some])
  qed
  from l three d show ?thesis
    by blast
qed

theorem listing_keeps_insertion_order_witness:
  "fst (list_posts (run
     [CreatePost sample_entropy (plain_form (Some ''1'') (Some ''A'') None),
      CreatePost sample_entropy (plain_form (Some ''2'') (Some ''B'') None),
      CreatePost sample_entropy (plain_form (Some ''3'') (Some ''C'') None)] initial)) =
     Response 200 (PostList [plain_post ''1'' ''A'', plain_post ''2'' ''B'', plain_post ''3'' ''C'']) \<and>
   status (fst (delete_post ''2''
     (initial\<lparr>posts := [plain_post ''1'' ''A'', plain_post ''2'' ''B'', plain_post ''3'' ''C'']\<rparr>))) = 200 \<and>
   posts (snd (delete_post ''2''
     (initial\<lparr>posts := [plain_post ''1'' ''A'', plain_post ''2'' ''B'', plain_post ''3'' ''C'']\<rparr>))) =
     [plain_post ''1'' ''A'', plain_post ''3'' ''C'']"
proof -
  let ?a = "plain_form (Some ''1'') (Some ''A'') None"
  let ?b = "plain_form (Some ''2'') (Some ''B'') None"
  let ?c = "plain_form (Some ''3'') (Some ''C'') None"
  let ?st = "initial\<lparr>posts := [plain_post ''1'' ''A'', plain_post ''2'' ''B'', plain_post ''3'' ''C'']\<rparr>"
  have ok: "\<not> id_rejected (body_id ?a)" "\<not> id_rejected (body_id ?b)" "\<not> id_rejected (body_id ?c)"
    by (simp_all add: id_rejected_def plain_form_def isNaN_defs)
  have cr: "created sample_entropy ?a = plain_post ''1'' ''A''"
    "created sample_entropy ?b = plain_post ''2'' ''B''"
    "created sample_entropy ?c = plain_post ''3'' ''C''"
    by (simp_all add: create_defs sample_defs)
  have del: "status (fst (delete_post ''2'' ?st)) = 200"
    "posts (snd (delete_post ''2'' ?st)) = [plain_post ''1'' ''A'', plain_post ''3'' ''C'']"
    by (simp_all add: delete_post_def sample_defs)
  from listing_keeps_insertion_order
    [of initial ?a ?b ?c sample_entropy sample_entropy sample_entropy "''2''"] ok
  have "fst (list_posts (run [CreatePost sample_entropy ?a, CreatePost sample_entropy ?b,
          CreatePost sample_entropy ?c] initial)) =
        Response 200 (PostList (posts initial @ [created sample_entropy ?a,
          created sample_entropy ?b, created sample_entropy ?c]))"
    by blast
  with cr del show ?thesis
    by (simp add: initial_def)
qed

section \<open>Following a record through later requests\<close>

lemma moved_fixed:
  assumes "n < length (posts st)" and "moved r st n = Some m"
  shows "m < length (posts (snd (serve r st))) \<and>
         fixed_part (posts (snd (serve r st)) ! m) = fixed_part (posts st ! n)"
proof (cases r)
  case (CreatePost e req)
  with assms show ?thesis
    by (simp add: posts_after_create nth_append)
next
  case ListPosts
  with assms show ?thesis
    by (simp add: list_posts_def)
next
  case (GetPost i)
  with assms show ?thesis
    by (simp add: get_post_def split: option.split)
next
  case (UpdatePost i b)
  show ?thesis
  proof (cases "findIndex (\<lambda>p. post_id p = i) (posts st)")
    case None
    with assms UpdatePost show ?thesis
      by (simp add: update_post_def)
  next
    case (Some k)
    from findIndex_Some [OF Some] have "k < length (posts st)"
      by simp
    with assms UpdatePost show ?thesis
      by (simp add: update_post_found [OF Some] nth_list_update fixed_part_def patched_fixed)
  qed
next
  case (DeletePost i)
  show ?thesis
  proof (cases "findIndex (\<lambda>p. post_id p = i) (posts st)")
    case None
    with assms DeletePost show ?thesis
      by (simp add: delete_post_def)
  next
    case (Some k)
    from findIndex_Some [OF Some] have k: "k < length (posts st)"
      by simp
    from assms(2) DeletePost Some have m: "k \<noteq> n" "m = (if k < n then n - 1 else n)"
      by (auto split: if_splits)
    have "(take k (posts st) @ drop (Suc k) (posts st)) ! m = posts st ! n"
      using m k assms(1) by (auto simp: nth_append min_def)
    moreover have "m < length (take k (posts st) @ drop (Suc k) (posts st))"
      using m k assms(1) by auto
    ultimately show ?thesis
      using DeletePost by (simp add: delete_post_found [OF Some])
  qed
qed

lemma follow_fixed:
  "n < length (posts st) \<Longrightarrow> follow rs st n = Some m \<Longrightarrow>
   m < length (posts (run rs st)) \<and> fixed_part (posts (run rs st) ! m) = fixed_part (posts st ! n)"
proof (induction rs arbitrary: st n)
  case Nil
  then show ?case by simp
next
  case (Cons r rs)
  from Cons.prems(2) obtain n' where n': "moved r st n = Some n'"
    "follow rs (snd (serve r st)) n' = Some m"
    by (auto split: option.splits)
  from moved_fixed [OF Cons.prems(1) n'(1)]
  have 1: "n' < length (posts (snd (serve r st)))"
    and 2: "fixed_part (posts (snd (serve r st)) ! n') = fixed_part (posts st ! n)"
    by auto
  from Cons.IH [OF 1 n'(2)] 2 show ?case
    by simp
qed


lemma json_image:
  "map_of (json_of_post p) ''image'' = Some (case post_image p of None \<Rightarrow> JNull | Some s \<Rightarrow> JStr s)"
  by (simp add: json_of_post_def split: option.split)

lemma json_video:
  "map_of (json_of_post p) ''video'' = Some (case post_video p of None \<Rightarrow> JNull | Some s \<Rightarrow> JStr s)"
  by (simp add: json_of_post_def split: option.split)

lemma get_post_at:
  "findIndex (\<lambda>p. post_id p = i) (posts st) = Some m \<Longrightarrow>
   get_post i st = (Response 200 (PostBody (posts st ! m)), st)"
  by (simp add: get_post_def find_findIndex)

lemma get_post_read:
  "fst (get_post i st) = Response 200 (PostBody q) \<Longrightarrow> q \<in> set (posts st) \<and> post_id q = i"
  by (auto simp: get_post_def find_Some_iff split: option.splits)

lemma same_id_same_record:
  assumes "\<forall>q \<in> set (posts st @ created_by rs). post_id q \<noteq> post_id c"
    and "posts st' = posts st @ [c]"
    and "q \<in> set (posts (run rs st'))" and "post_id q = post_id c"
  shows "fixed_part q = fixed_part c"
proof -
  from assms(2,3) run_fixed [of rs st'] have
    "fixed_part q \<in> fixed_part ` set (posts st @ [c]) \<union> fixed_part ` set (created_by rs)"
    by auto
  then obtain q' where q': "q' \<in> set (posts st) \<union> {c} \<union> set (created_by rs)"
    "fixed_part q = fixed_part q'"
    by auto
  from q'(2) assms(4) have "post_id q' = post_id c"
    by (simp add: fixed_part_def)
  with assms(1) q'(1) have "q' = c"
    by auto
  with q'(2) show ?thesis
    by simp
qed

section \<open>Absent file parts\<close>

text \<open>
  C9. For an accepted creation request without an image part (respectively a video
  part), the created record's \<^verbatim>\<open>image\<close> (respectively \<^verbatim>\<open>video\<close>) is \<^verbatim>\<open>null\<close>: the key is
  in the JSON of the 201 response with the value \<^verbatim>\<open>null\<close>, and the listing right after
  the creation ends with that record. After any further requests, as long as the record
  has not been deleted, the listing shows it at the place it has moved to, still with
  \<^verbatim>\<open>null\<close>, and so does the lookup of its id whenever the record is the first one with
  that id, the one the lookup returns. In particular, when no other record ever has the
  id, every lookup of it that finds a record finds \<^verbatim>\<open>null\<close>.
\<close>

theorem absent_file_part_is_null:
  assumes "\<not> id_rejected (body_id req)"
  shows "fst (create_post e req st) =
           Response 201 (MessagePost ''Post created successfully'' (created e req)) \<and>
         fst (list_posts (snd (create_post e req st))) =
           Response 200 (PostList (posts st @ [created e req])) \<and>
         ((\<forall>q \<in> set (posts st). post_id q \<noteq> post_id (created e req)) \<longrightarrow>
            fst (get_post (post_id (created e req)) (snd (create_post e req st))) =
              Response 200 (PostBody (created e req))) \<and>
         (files_image req = None \<longrightarrow>
            post_image (created e req) = None \<and>
            map_of (json_of_post (created e req)) ''image'' = Some JNull \<and>
            (\<forall>m. follow rs (snd (create_post e req st)) (length (posts st)) = Some m \<longrightarrow>
               (\<exists>ps. fst (list_posts (run rs (snd (create_post e req st)))) =
                       Response 200 (PostList ps) \<and>
                     m < length ps \<and> post_id (ps ! m) = post_id (created e req) \<and>
                     post_image (ps ! m) = None \<and>
                     map_of (json_of_post (ps ! m)) ''image'' = Some JNull) \<and>
               (findIndex (\<lambda>p. post_id p = post_id (created e req))
                    (posts (run rs (snd (create_post e req st)))) = Some m \<longrightarrow>
                  (\<exists>q. fst (get_post (post_id (created e req)) (run rs (snd (create_post e req st)))) =
                         Response 200 (PostBody q) \<and>
                       post_image q = None \<and>
                       map_of (json_of_post q) ''image'' = Some JNull))) \<and>
            ((\<forall>q \<in> set (posts st @ created_by rs). post_id q \<noteq> post_id (created e req)) \<longrightarrow>
               (\<forall>q. fst (get_post (post_id (created e req)) (run rs (snd (create_post e req st)))) =
                      Response 200 (PostBody q) \<longrightarrow> post_image q = None))) \<and>
         (files_video req = None \<longrightarrow>
            post_video (created e req) = None \<and>
            map_of (json_of_post (created e req)) ''video'' = Some JNull \<and>
            (\<forall>m. follow rs (snd (create_post e req st)) (length (posts st)) = Some m \<longrightarrow>
               (\<exists>ps. fst (list_posts (run rs (snd (create_post e req st)))) =
                       Response 200 (PostList ps) \<and>
                     m < length ps \<and> post_id (ps ! m) = post_id (created e req) \<and>
                     post_video (ps ! m) = None \<and>
                     map_of (json_of_post (ps ! m)) ''video'' = Some JNull) \<and>
               (findIndex (\<lambda>p. post_id p = post_id (created e req))
                    (posts (run rs (snd (create_post e req st)))) = Some m \<longrightarrow>
                  (\<exists>q. fst (get_post (post_id (created e req)) (run rs (snd (create_post e req st)))) =
                         Response 200 (PostBody q) \<and>
                       post_video q = None \<and>
                       map_of (json_of_post q) ''video'' = Some JNull))) \<and>
            ((\<forall>q \<in> set (posts st @ created_by rs). post_id q \<noteq> post_id (created e req)) \<longrightarrow>
               (\<forall>q. fst (get_post (post_id (created e req)) (run rs (snd (create_post e req st)))) =
                      Response 200 (PostBody q) \<longrightarrow> post_video q = None)))"
proof -
  let ?c = "created e req"
  let ?st' = "snd (create_post e req st)"
  let ?later = "run rs ?st'"
  let ?n = "length (posts st)"
  have st': "?st' = st\<lparr>disk := uploaded e req (disk st), posts := posts st @ [?c]\<rparr>"
    using assms by (simp add: create_post_accepted)
  have resp: "fst (create_post e req st) =
      Response 201 (MessagePost ''Post created successfully'' ?c)"
    using assms by (simp add: create_post_accepted)
  have stored: "posts ?st' = posts st @ [?c]"
    by (simp add: st')
  have listed: "fst (list_posts ?st') = Response 200 (PostList (posts st @ [?c]))"
    by (simp add: list_posts_def stored)
  have first: "fst (get_post (post_id ?c) ?st') = Response 200 (PostBody ?c)"
    if "\<forall>q \<in> set (posts st). post_id q \<noteq> post_id ?c"
  proof -
    from that have "find (\<lambda>p. post_id p = post_id ?c) (posts st) = None"
      by (simp add: find_None_iff)
    then show ?thesis
      by (simp add: get_post_def stored find_append_first)
  qed
  have img: "post_image ?c = None" if "files_image req = None"
    using that by (simp add: created_def newPost_def)
  have vid: "post_video ?c = None" if "files_video req = None"
    using that by (simp add: created_def newPost_def)
  have tracked: "m < length (posts ?later) \<and> fixed_part (posts ?later ! m) = fixed_part ?c"
    if "follow rs ?st' ?n = Some m" for m
  proof -
    have "?n < length (posts ?st')" and "posts ?st' ! ?n = ?c"
      by (simp_all add: stored)
    with follow_fixed [of ?n ?st' rs m] that show ?thesis
      by simp
  qed
  have list_later: "fst (list_posts ?later) = Response 200 (PostList (posts ?later))"
    by (simp add: list_posts_def)
  have by_id: "fixed_part q = fixed_part ?c"
    if "\<forall>q \<in> set (posts st @ created_by rs). post_id q \<noteq> post_id ?c"
      and "fst (get_post (post_id ?c) ?later) = Response 200 (PostBody q)" for q
    using same_id_same_record [OF that(1) stored] get_post_read [OF that(2)] by simp
  have image_part:
    "(\<forall>m. follow rs ?st' ?n = Some m \<longrightarrow>
        (\<exists>ps. fst (list_posts ?later) = Response 200 (PostList ps) \<and>
              m < length ps \<and> post_id (ps ! m) = post_id ?c \<and> post_image (ps ! m) = None \<and>
              map_of (json_of_post (ps ! m)) ''image'' = Some JNull) \<and>
        (findIndex (\<lambda>p. post_id p = post_id ?c) (posts ?later) = Some m \<longrightarrow>
           (\<exists>q. fst (get_post (post_id ?c) ?later) = Response 200 (PostBody q) \<and>
                post_image q = None \<and> map_of (json_of_post q) ''image'' = Some JNull))) \<and>
     ((\<forall>q \<in> set (posts st @ created_by rs). post_id q \<noteq> post_id ?c) \<longrightarrow>
        (\<forall>q. fst (get_post (post_id ?c) ?later) = Response 200 (PostBody q) \<longrightarrow>
           post_image q = None))"
    if none: "files_image req = None"
  proof (intro conjI allI impI)
    fix m assume m: "follow rs ?st' ?n = Some m"
    from tracked [OF m] img [OF none]
    have at: "m < length (posts ?later)" "post_id (posts ?later ! m) = post_id ?c"
      "post_image (posts ?later ! m) = None"
      by (simp_all add: fixed_part_def)
    then have j: "map_of (json_of_post (posts ?later ! m)) ''image'' = Some JNull"
      by (simp add: json_image)
    from list_later at j
    show "\<exists>ps. fst (list_posts ?later) = Response 200 (PostList ps) \<and>
              m < length ps \<and> post_id (ps ! m) = post_id ?c \<and> post_image (ps ! m) = None \<and>
              map_of (json_of_post (ps ! m)) ''image'' = Some JNull"
      by blast
    assume "findIndex (\<lambda>p. post_id p = post_id ?c) (posts ?later) = Some m"
    from get_post_at [OF this] at(3) j
    show "\<exists>q. fst (get_post (post_id ?c) ?later) = Response 200 (PostBody q) \<and>
              post_image q = None \<and> map_of (json_of_post q) ''image'' = Some JNull"
      by simp
  next
    fix q
    assume "\<forall>q \<in> set (posts st @ created_by rs). post_id q \<noteq> post_id ?c"
      and "fst (get_post (post_id ?c) ?later) = Response 200 (PostBody q)"
    from by_id [OF this] img [OF none] show "post_image q = None"
      by (simp add: fixed_part_def)
  qed
  have video_part:
    "(\<forall>m. follow rs ?st' ?n = Some m \<longrightarrow>
        (\<exists>ps. fst (list_posts ?later) = Response 200 (PostList ps) \<and>
              m < length ps \<and> post_id (ps ! m) = post_id ?c \<and> post_video (ps ! m) = None \<and>
              map_of (json_of_post (ps ! m)) ''video'' = Some JNull) \<and>
        (findIndex (\<lambda>p. post_id p = post_id ?c) (posts ?later) = Some m \<longrightarrow>
           (\<exists>q. fst (get_post (post_id ?c) ?later) = Response 200 (PostBody q) \<and>
                post_video q = None \<and> map_of (json_of_post q) ''video'' = Some JNull))) \<and>
     ((\<forall>q \<in> set (posts st @ created_by rs). post_id q \<noteq> post_id ?c) \<longrightarrow>
        (\<forall>q. fst (get_post (post_id ?c) ?later) = Response 200 (PostBody q) \<longrightarrow>
           post_video q = None))"
    if none: "files_video req = None"
  proof (intro conjI allI impI)
    fix m assume m: "follow rs ?st' ?n = Some m"
    from tracked [OF m] vid [OF none]
    have at: "m < length (posts ?later)" "post_id (posts ?later ! m) = post_id ?c"
      "post_video (posts ?later ! m) = None"
      by (simp_all add: fixed_part_def)
    then have j: "map_of (json_of_post (posts ?later ! m)) ''video'' = Some JNull"
      by (simp add: json_video)
    from list_later at j
    show "\<exists>ps. fst (list_posts ?later) = Response 200 (PostList ps) \<and>
              m < length ps \<and> post_id (ps ! m) = post_id ?c \<and> post_video (ps ! m) = None \<and>
              map_of (json_of_post (ps ! m)) ''video'' = Some JNull"
      by blast
    assume "findIndex (\<lambda>p. post_id p = post_id ?c) (posts ?later) = Some m"
    from get_post_at [OF this] at(3) j
    show "\<exists>q. fst (get_post (post_id ?c) ?later) = Response 200 (PostBody q) \<and>
              post_video q = None \<and> map_of (json_of_post q) ''video'' = Some JNull"
      by simp
  next
    fix q
    assume "\<forall>q \<in> set (posts st @ created_by rs). post_id q \<noteq> post_id ?c"
      and "fst (get_post (post_id ?c) ?later) = Response 200 (PostBody q)"
    from by_id [OF this] vid [OF none] show "post_video q = None"
      by (simp add: fixed_part_def)
  qed
  have ji: "map_of (json_of_post ?c) ''image'' = Some JNull" if "files_image req = None"
    using img [OF that] by (simp add: json_image)
  have jv: "map_of (json_of_post ?c) ''video'' = Some JNull" if "files_video req = None"
    using vid [OF that] by (simp add: json_video)
  from resp listed first img ji image_part vid jv video_part show ?thesis
    by blast
qed

theorem absent_file_part_is_null_witness:
  "\<not> id_rejected (body_id (plain_form (Some ''3'') (Some ''A'') None)) \<and>
   files_image (plain_form (Some ''3'') (Some ''A'') None) = None \<and>
   files_video (plain_form (Some ''3'') (Some ''A'') None) = None \<and>
   fst (create_post sample_entropy (plain_form (Some ''3'') (Some ''A'') None) initial) =
     Response 201 (MessagePost ''Post created successfully'' (plain_post ''3'' ''A'')) \<and>
   json_of_post (plain_post ''3'' ''A'') =
     [(''id'', JStr ''3''), (''title'', JStr ''A''), (''image'', JNull), (''video'', JNull)] \<and>
   follow [UpdatePost ''3'' (no_fields\<lparr>upd_title := JStr ''T'', upd_image := JStr ''/x.png''\<rparr>),
           DeletePost ''1'']
     (snd (create_post sample_entropy (plain_form (Some ''3'') (Some ''A'') None)
        (initial\<lparr>posts := [plain_post ''1'' ''old'',
           (plain_post ''3'' ''dup'')\<lparr>post_image := Some ''/uploads/images/a.png''\<rparr>]\<rparr>)))
     (length (posts (initial\<lparr>posts := [plain_post ''1'' ''old'',
           (plain_post ''3'' ''dup'')\<lparr>post_image := Some ''/uploads/images/a.png''\<rparr>]\<rparr>))) = Some 1 \<and>
   fst (list_posts (run
       [UpdatePost ''3'' (no_fields\<lparr>upd_title := JStr ''T'', upd_image := JStr ''/x.png''\<rparr>),
        DeletePost ''1'']
       (snd (create_post sample_entropy (plain_form (Some ''3'') (Some ''A'') None)
          (initial\<lparr>posts := [plain_post ''1'' ''old'',
             (plain_post ''3'' ''dup'')\<lparr>post_image := Some ''/uploads/images/a.png''\<rparr>]\<rparr>))))) =
     Response 200 (PostList
       [(plain_post ''3'' ''T'')\<lparr>post_image := Some ''/uploads/images/a.png''\<rparr>,
        plain_post ''3'' ''A'']) \<and>
   post_image (plain_post ''3'' ''A'') = None \<and> post_video (plain_post ''3'' ''A'') = None \<and>
   fst (get_post ''3'' (run
        [UpdatePost ''3'' (no_fields\<lparr>upd_title := JStr ''T'', upd_image := JStr ''/x.png''\<rparr>),
         CreatePost sample_entropy ((plain_form (Some ''4'') None None)\<lparr>files_image := Some photo_part\<rparr>)]
        (snd (create_post sample_entropy (plain_form (Some ''3'') (Some ''A'') None) initial)))) =
     Response 200 (PostBody (plain_post ''3'' ''T'')) \<and>
   post_image (plain_post ''3'' ''T'') = None \<and> post_video (plain_post ''3'' ''T'') = None"
proof -
  let ?req = "plain_form (Some ''3'') (Some ''A'') None"
  let ?st0 = "initial\<lparr>posts := [plain_post ''1'' ''old'',
           (plain_post ''3'' ''dup'')\<lparr>post_image := Some ''/uploads/images/a.png''\<rparr>]\<rparr>"
  let ?rs1 = "[UpdatePost ''3'' (no_fields\<lparr>upd_title := JStr ''T'', upd_image := JStr ''/x.png''\<rparr>),
        DeletePost ''1'']"
  let ?rs2 = "[UpdatePost ''3'' (no_fields\<lparr>upd_title := JStr ''T'', upd_image := JStr ''/x.png''\<rparr>),
         CreatePost sample_entropy ((plain_form (Some ''4'') None None)\<lparr>files_image := Some photo_part\<rparr>)]"
  let ?st1 = "snd (create_post sample_entropy ?req ?st0)"
  let ?st2 = "snd (create_post sample_entropy ?req initial)"
  have ok: "\<not> id_rejected (body_id ?req)"
    by (simp add: id_rejected_def plain_form_def isNaN_defs)
  have ok4: "\<not> id_rejected (body_id ((plain_form (Some ''4'') None None)\<lparr>files_image := Some photo_part\<rparr>))"
    by (simp add: id_rejected_def plain_form_def isNaN_defs)
  have none: "files_image ?req = None" "files_video ?req = None"
    by (simp_all add: plain_form_def)
  have c: "created sample_entropy ?req = plain_post ''3'' ''A''"
    by (simp add: create_defs sample_defs)
  have j: "json_of_post (plain_post ''3'' ''A'') =
     [(''id'', JStr ''3''), (''title'', JStr ''A''), (''image'', JNull), (''video'', JNull)]"
    by (simp add: json_of_post_def plain_post_def)
  have st1: "?st1 = initial\<lparr>posts := [plain_post ''1'' ''old'',
           (plain_post ''3'' ''dup'')\<lparr>post_image := Some ''/uploads/images/a.png''\<rparr>,
           plain_post ''3'' ''A'']\<rparr>"
    by (simp add: create_post_accepted [OF ok] c) (simp add: uploaded_def written_def plain_form_def initial_def)
  have st2: "?st2 = initial\<lparr>posts := [plain_post ''3'' ''A'']\<rparr>"
    by (simp add: create_post_accepted [OF ok] c) (simp add: uploaded_def written_def plain_form_def initial_def)
  have f: "follow ?rs1 ?st1 (length (posts ?st0)) = Some 1"
    unfolding st1
    by (simp add: update_post_def delete_post_def js_or_def Let_def sample_defs)
  have l: "fst (list_posts (run ?rs1 ?st1)) = Response 200 (PostList
       [(plain_post ''3'' ''T'')\<lparr>post_image := Some ''/uploads/images/a.png''\<rparr>,
        plain_post ''3'' ''A''])"
    unfolding st1
    by (simp add: list_posts_def update_post_def delete_post_def js_or_def Let_def sample_defs)
  have g: "fst (get_post ''3'' (run ?rs2 ?st2)) = Response 200 (PostBody (plain_post ''3'' ''T''))"
    unfolding st2
    by (simp add: posts_after_create create_defs isNaN_defs update_post_def get_post_def
        js_or_def Let_def sample_defs)
  have fresh: "\<forall>q \<in> set (posts initial @ created_by ?rs2).
      post_id q \<noteq> post_id (created sample_entropy ?req)"
    unfolding c by (simp add: ok4 created_id) (simp add: initial_def plain_form_def plain_post_def)
  note T1 = absent_file_part_is_null [OF ok, of sample_entropy ?st0 ?rs1]
  note T1i = T1 [THEN conjunct2, THEN conjunct2, THEN conjunct2, THEN conjunct1, THEN mp,
    OF none(1), THEN conjunct2, THEN conjunct2, THEN conjunct1, THEN spec, THEN mp, OF f,
    THEN conjunct1]
  note T1v = T1 [THEN conjunct2, THEN conjunct2, THEN conjunct2, THEN conjunct2, THEN mp,
    OF none(2), THEN conjunct2, THEN conjunct2, THEN conjunct1, THEN spec, THEN mp, OF f,
    THEN conjunct1]
  from T1i obtain ps where ps: "fst (list_posts (run ?rs1 ?st1)) = Response 200 (PostList ps)"
    "post_image (ps ! 1) = None"
    by (elim exE conjE)
  from T1v obtain ps' where ps': "fst (list_posts (run ?rs1 ?st1)) = Response 200 (PostList ps')"
    "post_video (ps' ! 1) = None"
    by (elim exE conjE)
  from ps(1) l have "ps ! 1 = plain_post ''3'' ''A''"
    by simp
  moreover from ps'(1) l have "ps' ! 1 = plain_post ''3'' ''A''"
    by simp
  ultimately have a: "post_image (plain_post ''3'' ''A'') = None"
    "post_video (plain_post ''3'' ''A'') = None"
    using ps(2) ps'(2) by simp_all
  note T2 = absent_file_part_is_null [OF ok, of sample_entropy initial ?rs2]
  note r = T2 [THEN conjunct1, unfolded c]
  note T2i = T2 [THEN conjunct2, THEN conjunct2, THEN conjunct2, THEN conjunct1, THEN mp,
    OF none(1), THEN conjunct2, THEN conjunct2, THEN conjunct2, THEN mp, OF fresh, THEN spec,
    THEN mp, unfolded c]
  note T2v = T2 [THEN conjunct2, THEN conjunct2, THEN conjunct2, THEN conjunct2, THEN mp,
    OF none(2), THEN conjunct2, THEN conjunct2, THEN conjunct2, THEN mp, OF fresh, THEN spec,
    THEN mp, unfolded c]
  have g': "fst (get_post (post_id (plain_post ''3'' ''A'')) (run ?rs2 ?st2)) =
      Response 200 (PostBody (plain_post ''3'' ''T''))"
    using g by (simp add: plain_post_def)
  have t: "post_image (plain_post ''3'' ''T'') = None" "post_video (plain_post ''3'' ''T'') = None"
    by (rule T2i [OF g'], rule T2v [OF g'])
  show ?thesis
    by (intro conjI) (rule ok none r j f l a g t)+
qed

end
